theory Spec2Isabelle
  imports Complex_Main "HOL-Library.Char_ord" "HOL-Library.List_Lexorder" "HOL-Library.AList"
begin

section \<open>The MLM trend-following script (main.py)\<close>

text \<open>
  A shallow embedding of \<^verbatim>\<open>src/main.py\<close>. The script talks to a broker through an
  \<^verbatim>\<open>ib_insync.IB\<close> object and computes its indicators with pandas. Here

  \<^item> a Python float is a \<open>real\<close>, and a float column that may hold a missing value is
    a \<open>real option\<close> column, \<open>None\<close> standing for NaN (and for the infinite quotient of
    a division by zero, which pandas' rolling windows read as NaN);
  \<^item> a DataFrame is the list of its rows, a row a record of its columns;
  \<^item> a Python string is a \<open>string\<close>, one \<open>char\<close> per character, compared as Python
    compares strings (by character code, a proper prefix first);
  \<^item> the broker is a record of replies (what each request answers or whether it raises),
    and what the script does to the outside (lines printed, orders placed, sleeps,
    disconnects) is collected in a record that every function passes on;
  \<^item> an exception that leaves a function is the \<open>Inl\<close> of a sum type.
\<close>

subsection \<open>1. Universe and parameters\<close>

record symbol_info =
  symbol :: string
  exchange :: string
  currency :: string
  category :: string

definition mlm_universe :: "symbol_info list" where
  "mlm_universe =
    [\<lparr>symbol = ''ZC'', exchange = ''CBOT'', currency = ''USD'', category = ''Grains''\<rparr>,
     \<lparr>symbol = ''ZW'', exchange = ''CBOT'', currency = ''USD'', category = ''Grains''\<rparr>,
     \<lparr>symbol = ''ZS'', exchange = ''CBOT'', currency = ''USD'', category = ''Grains''\<rparr>,
     \<lparr>symbol = ''ZM'', exchange = ''CBOT'', currency = ''USD'', category = ''Grains''\<rparr>,
     \<lparr>symbol = ''ZL'', exchange = ''CBOT'', currency = ''USD'', category = ''Grains''\<rparr>,
     \<lparr>symbol = ''LE'', exchange = ''CME'', currency = ''USD'', category = ''Cattle''\<rparr>,
     \<lparr>symbol = ''CL'', exchange = ''NYMEX'', currency = ''USD'', category = ''Energy''\<rparr>,
     \<lparr>symbol = ''HO'', exchange = ''NYMEX'', currency = ''USD'', category = ''Energy''\<rparr>,
     \<lparr>symbol = ''RB'', exchange = ''NYMEX'', currency = ''USD'', category = ''Energy''\<rparr>,
     \<lparr>symbol = ''NG'', exchange = ''NYMEX'', currency = ''USD'', category = ''Energy''\<rparr>,
     \<lparr>symbol = ''GC'', exchange = ''COMEX'', currency = ''USD'', category = ''Metals''\<rparr>,
     \<lparr>symbol = ''SI'', exchange = ''COMEX'', currency = ''USD'', category = ''Metals''\<rparr>,
     \<lparr>symbol = ''HG'', exchange = ''COMEX'', currency = ''USD'', category = ''Metals''\<rparr>,
     \<lparr>symbol = ''SB'', exchange = ''NYBOT'', currency = ''USD'', category = ''Softs''\<rparr>,
     \<lparr>symbol = ''KC'', exchange = ''NYBOT'', currency = ''USD'', category = ''Softs''\<rparr>,
     \<lparr>symbol = ''CT'', exchange = ''NYBOT'', currency = ''USD'', category = ''Softs''\<rparr>,
     \<lparr>symbol = ''ZF'', exchange = ''CBOT'', currency = ''USD'', category = ''Softs''\<rparr>,
     \<lparr>symbol = ''ZN'', exchange = ''CBOT'', currency = ''USD'', category = ''Treasurys''\<rparr>,
     \<lparr>symbol = ''ZB'', exchange = ''CBOT'', currency = ''USD'', category = ''Treasurys''\<rparr>,
     \<lparr>symbol = ''AUD'', exchange = ''CME'', currency = ''USD'', category = ''Currencys''\<rparr>,
     \<lparr>symbol = ''GBP'', exchange = ''CME'', currency = ''USD'', category = ''Currencys''\<rparr>,
     \<lparr>symbol = ''CAD'', exchange = ''CME'', currency = ''USD'', category = ''Currencys''\<rparr>,
     \<lparr>symbol = ''EUR'', exchange = ''CME'', currency = ''USD'', category = ''Currencys''\<rparr>,
     \<lparr>symbol = ''CHF'', exchange = ''CME'', currency = ''USD'', category = ''Currencys''\<rparr>,
     \<lparr>symbol = ''JPY'', exchange = ''CME'', currency = ''USD'', category = ''Currencys''\<rparr>]"

definition HISTORY_DURATION :: string where "HISTORY_DURATION = ''2 Y''"
definition BAR_SIZE :: string where "BAR_SIZE = ''1 day''"
definition VOL_THRESHOLD :: real where "VOL_THRESHOLD = 0.015"
definition VOL_WINDOW :: nat where "VOL_WINDOW = 20"
definition MA_WINDOW :: nat where "MA_WINDOW = 200"
definition CONTRACT_SIZE :: nat where "CONTRACT_SIZE = 1"

text \<open>
  The functions of the script read these module-level names when they run. The model
  hands them over as a record, so that every theorem holds for any setting of them;
  \<open>mlm_config\<close> is the setting the script itself has.
\<close>

record config =
  universe :: "symbol_info list"
  vol_threshold :: real
  vol_window :: nat
  ma_window :: nat
  contract_size :: nat

definition mlm_config :: config where
  "mlm_config = \<lparr>universe = mlm_universe, vol_threshold = VOL_THRESHOLD,
     vol_window = VOL_WINDOW, ma_window = MA_WINDOW, contract_size = CONTRACT_SIZE\<rparr>"

subsection \<open>The broker and the outside world\<close>

text \<open>A calendar date: a bar's \<^verbatim>\<open>date\<close> and \<^verbatim>\<open>datetime.today()\<close>.\<close>

record pydate =
  year :: nat
  month :: nat
  day :: nat

text \<open>
  One daily bar, a row of the DataFrame that \<^verbatim>\<open>util.df(bars)\<close> builds. Its columns are
  numbers, none of them missing; only \<^verbatim>\<open>close\<close> is read by the script.
\<close>

record bar =
  date :: pydate
  open_price :: real
  high :: real
  low :: real
  close :: real
  volume :: real

text \<open>The contracts the script builds to ask with: \<^verbatim>\<open>ContFuture\<close> and the undated \<^verbatim>\<open>Future\<close>,
  each of a symbol, an exchange and a currency.\<close>

datatype ib_query = ContFuture string string string | Future string string string

text \<open>A dated contract, the \<^verbatim>\<open>d.contract\<close> of a contract detail.\<close>

record contract =
  conId :: int
  con_symbol :: string
  lastTradeDateOrContractMonth :: string

text \<open>\<^verbatim>\<open>MarketOrder(action, totalQuantity)\<close>.\<close>

record market_order =
  action :: string
  totalQuantity :: nat

datatype 'a reply = Raises | Returns 'a

text \<open>
  What the broker answers: \<open>connect_reply port\<close> is whether \<^verbatim>\<open>ib.connect\<close> raises and
  otherwise what \<^verbatim>\<open>ib.isConnected()\<close> says after it; the requests answer a list or
  raise; \<open>placeOrder_reply\<close> is whether \<^verbatim>\<open>ib.placeOrder\<close> raises; \<open>today\<close> is what
  \<^verbatim>\<open>datetime.today()\<close> returns.
\<close>

record ib_env =
  connect_reply :: "nat \<Rightarrow> bool reply"
  reqHistoricalData :: "ib_query \<Rightarrow> bar list reply"
  reqContractDetails :: "ib_query \<Rightarrow> contract list reply"
  placeOrder_reply :: "contract \<Rightarrow> market_order \<Rightarrow> unit reply"
  today :: pydate

text \<open>The lines the script prints, one constructor for each \<^verbatim>\<open>print\<close>; a number that
  the line formats is kept as the number.\<close>

datatype log_line =
  InfoConnected bool nat
  | ErrorFetchFailed string
  | WarningNoBars string
  | WarningFrameEmpty string
  | WarningNoContractDetails string
  | WarningNoValidContracts string
  | WarningNotEnoughData string
  | ErrorNoData
  | InfoAverageVol "real option"
  | InfoVolatilityCheck bool real
  | InfoPlacingOrders
  | WarningNoFrontMonth string
  | TradePlaced string string nat int string
  | InfoNoTrades

record world =
  printed :: "log_line list"
  placed :: "(contract \<times> market_order) list"
  slept :: "nat list"
  disconnects :: nat

definition print :: "log_line \<Rightarrow> world \<Rightarrow> world" where
  "print l w = w\<lparr>printed := printed w @ [l]\<rparr>"

definition world0 :: world where
  "world0 = \<lparr>printed = [], placed = [], slept = [], disconnects = 0\<rparr>"

datatype error = ConnectionError | BrokerException | IndexError

subsection \<open>2. IBKR connection\<close>

definition connect_ibkr :: "ib_env \<Rightarrow> bool \<Rightarrow> world \<Rightarrow> (error + unit) \<times> world" where
  "connect_ibkr ib paper_trading w =
    (let port = (if paper_trading then 7497 else 7496) in
     case connect_reply ib port of
       Raises \<Rightarrow> (Inl BrokerException, w)
     | Returns isConnected \<Rightarrow>
         if isConnected then (Inr (), print (InfoConnected paper_trading port) w)
         else (Inl ConnectionError, w))"

subsection \<open>3. Historical data from the continuous future\<close>

text \<open>The DataFrame of the bars with the \<^verbatim>\<open>symbol\<close> column attached.\<close>

record cont_row = bar +
  row_symbol :: string

definition attach_symbol :: "string \<Rightarrow> bar \<Rightarrow> cont_row" where
  "attach_symbol s b = bar.extend b (cont_row.fields s)"

definition get_continuous_data ::
  "ib_env \<Rightarrow> symbol_info \<Rightarrow> world \<Rightarrow> cont_row list option \<times> world" where
  "get_continuous_data ib symbol_info w =
    (let cont_fut = ContFuture (symbol symbol_info) (exchange symbol_info) (currency symbol_info) in
     case reqHistoricalData ib cont_fut of
       Raises \<Rightarrow> (None, print (ErrorFetchFailed (symbol symbol_info)) w)
     | Returns bars \<Rightarrow>
         if bars = [] then (None, print (WarningNoBars (symbol symbol_info)) w)
         else let df = map (attach_symbol (symbol symbol_info)) bars in
           if df = [] then (None, print (WarningFrameEmpty (symbol symbol_info)) w)
           else (Some df, w))"

subsection \<open>4. The front-month contract\<close>

text \<open>
  \<^verbatim>\<open>valid_contracts.sort(key=...)\<close> is a stable sort by the key; \<open>sort_key\<close> is one,
  and strings are ordered as Python orders them.
\<close>

definition get_front_month_contract ::
  "ib_env \<Rightarrow> symbol_info \<Rightarrow> world \<Rightarrow> (error + contract option) \<times> world" where
  "get_front_month_contract ib symbol_info w =
    (let undated = Future (symbol symbol_info) (exchange symbol_info) (currency symbol_info) in
     case reqContractDetails ib undated of
       Raises \<Rightarrow> (Inl BrokerException, w)
     | Returns details \<Rightarrow>
         if details = [] then (Inr None, print (WarningNoContractDetails (symbol symbol_info)) w)
         else
           let valid_contracts =
             filter (\<lambda>c. lastTradeDateOrContractMonth c \<noteq> [] \<and>
                          length (lastTradeDateOrContractMonth c) \<ge> 6) details
           in
             if valid_contracts = []
             then (Inr None, print (WarningNoValidContracts (symbol symbol_info)) w)
             else
               (case sort_key lastTradeDateOrContractMonth valid_contracts of
                  front # _ \<Rightarrow> (Inr (Some front), w)
                | [] \<Rightarrow> (Inl IndexError, w)))"

subsection \<open>5. Volatility and the trend signal\<close>

text \<open>
  \<^verbatim>\<open>Series.pct_change()\<close>: the quotient of each value by the one before it, less one;
  missing in the first row, and not a finite number where the value before is zero.
\<close>

definition pct_change :: "real list \<Rightarrow> real option list" where
  "pct_change xs =
    map (\<lambda>i. if i = 0 \<or> xs ! (i - 1) = 0 then None else Some (xs ! i / xs ! (i - 1) - 1))
      [0..<length xs]"

text \<open>
  \<^verbatim>\<open>Series.rolling(n)\<close> followed by an aggregate: row \<open>i\<close> aggregates the \<open>n\<close> values
  that end at row \<open>i\<close>, and is missing when fewer than \<open>n\<close> rows end there or one of the
  \<open>n\<close> values is missing (\<^verbatim>\<open>min_periods\<close> is the window size).
\<close>

definition rolling :: "nat \<Rightarrow> (real list \<Rightarrow> real option) \<Rightarrow> real option list \<Rightarrow> real option list" where
  "rolling n agg xs =
    map (\<lambda>i. if i + 1 < n then None
              else let window = take n (drop (i + 1 - n) xs) in
                if list_all (\<lambda>v. v \<noteq> None) window then agg (map the window) else None)
      [0..<length xs]"

text \<open>\<^verbatim>\<open>.mean()\<close>: the arithmetic mean, missing for no value at all.\<close>

definition mean :: "real list \<Rightarrow> real option" where
  "mean xs = (if xs = [] then None else Some (sum_list xs / real (length xs)))"

text \<open>\<^verbatim>\<open>.std()\<close>: the sample standard deviation (one degree of freedom taken off),
  missing for fewer than two values.\<close>

definition std :: "real list \<Rightarrow> real option" where
  "std xs =
    (if length xs < 2 then None
     else let m = sum_list xs / real (length xs) in
       Some (sqrt (sum_list (map (\<lambda>x. (x - m)\<^sup>2) xs) / real (length xs - 1))))"

text \<open>The DataFrame with the derived columns.\<close>

record ind_row = cont_row +
  return :: "real option"
  rolling_std_20 :: "real option"
  MA200 :: "real option"
  signal :: int

text \<open>\<^verbatim>\<open>np.where(close > MA200, 1, -1)\<close>: a comparison with a missing value is false.\<close>

definition signal_of :: "real \<Rightarrow> real option \<Rightarrow> int" where
  "signal_of c ma = (case ma of None \<Rightarrow> - 1 | Some m \<Rightarrow> if c > m then 1 else - 1)"

text \<open>\<^verbatim>\<open>DataFrame.dropna()\<close>: the rows with no missing value, in their order.\<close>

definition dropna :: "ind_row list \<Rightarrow> ind_row list" where
  "dropna df = filter (\<lambda>r. return r \<noteq> None \<and> rolling_std_20 r \<noteq> None \<and> MA200 r \<noteq> None) df"

definition compute_indicators :: "config \<Rightarrow> cont_row list \<Rightarrow> ind_row list" where
  "compute_indicators cfg df =
    (let returns = pct_change (map close df);
         stds = rolling (vol_window cfg) std returns;
         mas = rolling (ma_window cfg) mean (map (\<lambda>r. Some (close r)) df)
     in dropna
          (map (\<lambda>i. cont_row.extend (df ! i)
                   (ind_row.fields (returns ! i) (stds ! i) (mas ! i)
                      (signal_of (close (df ! i)) (mas ! i))))
             [0..<length df]))"

subsection \<open>6. The strategy\<close>

text \<open>
  An entry of \<^verbatim>\<open>symbol_data_map\<close>, with its keys \<^verbatim>\<open>'df'\<close>, \<^verbatim>\<open>'signal'\<close> and \<^verbatim>\<open>'vol'\<close>. The
  dict is the list of its items in insertion order; storing under a key that is there
  replaces the value where it stands, as \<open>AList.update\<close> does.
\<close>

record entry =
  df :: "ind_row list"
  latest_signal :: int
  latest_vol :: "real option"

type_synonym symbol_data_map = "(string \<times> entry) list"

text \<open>
  The body of the first loop of \<^verbatim>\<open>run_mlm_strategy\<close> for one instrument: the entry it
  stores, or \<open>None\<close> where the body ends in \<^verbatim>\<open>continue\<close>.
\<close>

definition fetch_one :: "config \<Rightarrow> ib_env \<Rightarrow> symbol_info \<Rightarrow> world \<Rightarrow> entry option \<times> world" where
  "fetch_one cfg ib info w =
    (case get_continuous_data ib info w of
       (None, w1) \<Rightarrow> (None, w1)
     | (Some df_cont, w1) \<Rightarrow>
         if df_cont = [] then (None, w1)
         else
           let df_ind = compute_indicators cfg df_cont in
             if df_ind = [] then (None, print (WarningNotEnoughData (symbol info)) w1)
             else (Some \<lparr>df = df_ind, latest_signal = signal (last df_ind),
                         latest_vol = rolling_std_20 (last df_ind)\<rparr>, w1))"

text \<open>The first loop, over the instruments still to fetch.\<close>

fun fetch_all ::
  "config \<Rightarrow> ib_env \<Rightarrow> symbol_info list \<Rightarrow> symbol_data_map \<Rightarrow> world \<Rightarrow> symbol_data_map \<times> world" where
  "fetch_all cfg ib [] m w = (m, w)"
| "fetch_all cfg ib (info # rest) m w =
    (case fetch_one cfg ib info w of
       (None, w1) \<Rightarrow> fetch_all cfg ib rest m w1
     | (Some e, w1) \<Rightarrow> fetch_all cfg ib rest (AList.update (symbol info) e m) w1)"

text \<open>\<^verbatim>\<open>np.mean\<close> of a non-empty list of floats: missing as soon as one of them is.\<close>

definition np_mean :: "real option list \<Rightarrow> real option" where
  "np_mean vs = (if list_all (\<lambda>v. v \<noteq> None) vs then mean (map the vs) else None)"

text \<open>\<^verbatim>\<open>avg_vol > VOL_THRESHOLD\<close>: false for a missing value.\<close>

definition float_gt :: "real option \<Rightarrow> real \<Rightarrow> bool" where
  "float_gt a b = (case a of None \<Rightarrow> False | Some x \<Rightarrow> x > b)"

text \<open>
  The body of the second loop for one item of \<^verbatim>\<open>symbol_data_map\<close>. An exception of the
  contract request or of the order is not caught: it leaves the loop and the function.
\<close>

definition place_one :: "config \<Rightarrow> ib_env \<Rightarrow> string \<times> entry \<Rightarrow> world \<Rightarrow> (error + unit) \<times> world" where
  "place_one cfg ib item w =
    (case item of (symb, data) \<Rightarrow>
       (case find (\<lambda>x. symbol x = symb) (universe cfg) of
          None \<Rightarrow> (Inr (), w)
        | Some symbol_info \<Rightarrow>
            (case get_front_month_contract ib symbol_info w of
               (Inl e, w1) \<Rightarrow> (Inl e, w1)
             | (Inr None, w1) \<Rightarrow> (Inr (), print (WarningNoFrontMonth symb) w1)
             | (Inr (Some front_contract), w1) \<Rightarrow>
                 let pos_size = contract_size cfg;
                     act = (if latest_signal data = 1 then ''BUY'' else ''SELL'');
                     order = \<lparr>action = act, totalQuantity = pos_size\<rparr>
                 in case placeOrder_reply ib front_contract order of
                      Raises \<Rightarrow> (Inl BrokerException, w1)
                    | Returns trade \<Rightarrow>
                        (Inr (),
                         print (TradePlaced symb act pos_size (latest_signal data)
                                  (lastTradeDateOrContractMonth front_contract))
                           (w1\<lparr>placed := placed w1 @ [(front_contract, order)]\<rparr>)))))"

fun place_all ::
  "config \<Rightarrow> ib_env \<Rightarrow> (string \<times> entry) list \<Rightarrow> world \<Rightarrow> (error + unit) \<times> world" where
  "place_all cfg ib [] w = (Inr (), w)"
| "place_all cfg ib (item # rest) w =
    (case place_one cfg ib item w of
       (Inl e, w1) \<Rightarrow> (Inl e, w1)
     | (Inr _, w1) \<Rightarrow> place_all cfg ib rest w1)"

text \<open>
  The script's two \<^verbatim>\<open>return\<close>s carry no value and the function ends without one: what
  it returns is Python's \<^verbatim>\<open>None\<close> on every path. \<open>cycle_summary\<close> is the summary the
  specification describes; the script never builds one.
\<close>

record cycle_summary =
  instruments_attempted :: nat
  fetch_failures :: nat
  insufficient_history_skips :: nat
  resolution_failures :: nat
  submission_failures :: nat
  submissions_succeeded :: nat

definition disconnect :: "world \<Rightarrow> world" where
  "disconnect w = w\<lparr>disconnects := disconnects w + 1\<rparr>"

definition sleep :: "nat \<Rightarrow> world \<Rightarrow> world" where
  "sleep secs w = w\<lparr>slept := slept w @ [secs]\<rparr>"

definition run_mlm_strategy ::
  "config \<Rightarrow> ib_env \<Rightarrow> bool \<Rightarrow> world \<Rightarrow> (error + cycle_summary option) \<times> world" where
  "run_mlm_strategy cfg ib paper_trading w0 =
    (case connect_ibkr ib paper_trading w0 of
       (Inl e, w1) \<Rightarrow> (Inl e, w1)
     | (Inr _, w1) \<Rightarrow>
         (case fetch_all cfg ib (universe cfg) [] w1 of
            (symbol_data_map, w2) \<Rightarrow>
              if symbol_data_map = [] then (Inr None, disconnect (print ErrorNoData w2))
              else
                let all_vols = map (\<lambda>(symb, data). latest_vol data) symbol_data_map;
                    avg_vol = np_mean all_vols;
                    w3 = print (InfoAverageVol avg_vol) w2;
                    is_volatile = float_gt avg_vol (vol_threshold cfg);
                    w4 = print (InfoVolatilityCheck is_volatile (vol_threshold cfg)) w3;
                    is_rebalance_day = (day (today ib) = 25)
                in
                  if is_rebalance_day \<and> is_volatile
                  then
                    (case place_all cfg ib symbol_data_map (print InfoPlacingOrders w4) of
                       (Inl e, w5) \<Rightarrow> (Inl e, w5)
                     | (Inr _, w5) \<Rightarrow> (Inr None, disconnect (sleep 5 w5)))
                  else (Inr None, disconnect (print InfoNoTrades w4))))"

subsection \<open>Example inputs\<close>

definition ex_info :: symbol_info where
  "ex_info = \<lparr>symbol = ''ZC'', exchange = ''CBOT'', currency = ''USD'', category = ''Grains''\<rparr>"

definition ex_contract :: "int \<Rightarrow> string \<Rightarrow> contract" where
  "ex_contract n tok = \<lparr>conId = n, con_symbol = ''ZC'', lastTradeDateOrContractMonth = tok\<rparr>"

definition ex_broker :: "bar list reply \<Rightarrow> contract list reply \<Rightarrow> nat \<Rightarrow> ib_env" where
  "ex_broker bars details d =
    \<lparr>connect_reply = (\<lambda>port. Returns True), reqHistoricalData = (\<lambda>q. bars),
     reqContractDetails = (\<lambda>q. details), placeOrder_reply = (\<lambda>c ord. Returns ()),
     today = \<lparr>year = 2024, month = 1, day = d\<rparr>\<rparr>"

subsection \<open>The contract invariant of the specification\<close>

text \<open>
  The specification's invariant of a tradable contract, in its words: the expiry token
  resolves to a calendar month (a year of four digits and a month from 01 to 12 at its
  start), and that month is not before the month of the resolution.
\<close>

definition is_digit :: "char \<Rightarrow> bool" where
  "is_digit c = (CHR ''0'' \<le> c \<and> c \<le> CHR ''9'')"

definition number_of :: "string \<Rightarrow> nat" where
  "number_of s = foldl (\<lambda>n c. 10 * n + (of_char c - 48)) 0 s"

definition expiry_month :: "string \<Rightarrow> (nat \<times> nat) option" where
  "expiry_month tok =
    (if 6 \<le> length tok \<and> list_all is_digit (take 6 tok) \<and>
        1 \<le> number_of (take 2 (drop 4 tok)) \<and> number_of (take 2 (drop 4 tok)) \<le> 12
     then Some (number_of (take 4 tok), number_of (take 2 (drop 4 tok))) else None)"

definition tradable_contract :: "pydate \<Rightarrow> contract \<Rightarrow> bool" where
  "tradable_contract now c =
    (case expiry_month (lastTradeDateOrContractMonth c) of
       None \<Rightarrow> False
     | Some (y, m) \<Rightarrow> year now < y \<or> (year now = y \<and> month now \<le> m))"

text \<open>Bars for the examples: one bar a day from 1 January 2024 on (months of 28 days, to
  keep the dates simple), with the given closes.\<close>

definition ex_day :: "nat \<Rightarrow> pydate" where
  "ex_day i = \<lparr>year = 2024, month = 1 + i div 28, day = 1 + i mod 28\<rparr>"

definition ex_bar :: "nat \<Rightarrow> real \<Rightarrow> bar" where
  "ex_bar i c = \<lparr>date = ex_day i, open_price = c, high = c, low = c, close = c, volume = 1000\<rparr>"

definition ex_bars :: "real list \<Rightarrow> bar list" where
  "ex_bars cs = map (\<lambda>(i, c). ex_bar i c) (enumerate 0 cs)"

definition ex_frame :: "real list \<Rightarrow> cont_row list" where
  "ex_frame cs = map (attach_symbol ''ZC'') (ex_bars cs)"

text \<open>A setting with short windows: a volatility window of 3 and a moving average of 2.\<close>

definition ex_config :: "symbol_info list \<Rightarrow> config" where
  "ex_config us = \<lparr>universe = us, vol_threshold = 0.015, vol_window = 3, ma_window = 2,
     contract_size = 1\<rparr>"

text \<open>The derived row of an input row.\<close>

definition ex_row :: "cont_row \<Rightarrow> real \<Rightarrow> real \<Rightarrow> real \<Rightarrow> int \<Rightarrow> ind_row" where
  "ex_row r ret sd ma sg = cont_row.extend r (ind_row.fields (Some ret) (Some sd) (Some ma) sg)"

text \<open>A broker that answers by symbol, and a universe of four instruments: A, B and C
  have a history of four bars each, the request for D raises; A and C have contracts
  listed, B has none.\<close>

definition ex_market ::
  "(string \<Rightarrow> bar list reply) \<Rightarrow> (string \<Rightarrow> contract list reply) \<Rightarrow> nat \<Rightarrow> ib_env" where
  "ex_market hist listed d =
    \<lparr>connect_reply = (\<lambda>port. Returns True),
     reqHistoricalData = (\<lambda>q. case q of ContFuture s e c \<Rightarrow> hist s | Future s e c \<Rightarrow> Raises),
     reqContractDetails = (\<lambda>q. case q of Future s e c \<Rightarrow> listed s | ContFuture s e c \<Rightarrow> Raises),
     placeOrder_reply = (\<lambda>c ord. Returns ()),
     today = \<lparr>year = 2024, month = 1, day = d\<rparr>\<rparr>"

definition ex_instrument :: "string \<Rightarrow> symbol_info" where
  "ex_instrument s = \<lparr>symbol = s, exchange = ''CBOT'', currency = ''USD'', category = ''Grains''\<rparr>"

definition ex_universe :: "symbol_info list" where
  "ex_universe = [ex_instrument ''A'', ex_instrument ''B'', ex_instrument ''C'', ex_instrument ''D'']"

definition ex_closes_A :: "real list" where "ex_closes_A = [1, 1, 1.01, 1.0302]"
definition ex_closes_B :: "real list" where "ex_closes_B = [1, 1, 1.02, 1.0608]"
definition ex_closes_C :: "real list" where "ex_closes_C = [1, 1, 0.97, 0.9118]"

definition ex_hist :: "string \<Rightarrow> bar list reply" where
  "ex_hist s =
    (if s = ''A'' then Returns (ex_bars ex_closes_A)
     else if s = ''B'' then Returns (ex_bars ex_closes_B)
     else if s = ''C'' then Returns (ex_bars ex_closes_C)
     else Raises)"

definition ex_listed :: "string \<Rightarrow> contract list reply" where
  "ex_listed s =
    (if s = ''A'' then Returns [ex_contract 1 ''202403'', ex_contract 2 ''202312'']
     else if s = ''C'' then Returns [ex_contract 3 ''202406'']
     else Returns [])"

subsection \<open>What one instrument gives\<close>

text \<open>The entry that the first loop stores for an instrument and the contract that the
  resolution returns for it, read off the functions of the script: neither depends on
  what has been printed or placed before.\<close>

definition snapshot :: "config \<Rightarrow> ib_env \<Rightarrow> symbol_info \<Rightarrow> entry option" where
  "snapshot cfg ib info = fst (fetch_one cfg ib info world0)"

definition front_month :: "ib_env \<Rightarrow> symbol_info \<Rightarrow> error + contract option" where
  "front_month ib info = fst (get_front_month_contract ib info world0)"

text \<open>The entries of the example: the one derived row of a history of four bars, and what
  the first loop stores for A, B and C.\<close>

definition ex_entry :: "string \<Rightarrow> real \<Rightarrow> real \<Rightarrow> real \<Rightarrow> real \<Rightarrow> int \<Rightarrow> entry" where
  "ex_entry s c ret sd ma sg =
    \<lparr>df = [ex_row (attach_symbol s (ex_bar 3 c)) ret sd ma sg], latest_signal = sg,
     latest_vol = Some sd\<rparr>"

definition ex_basket :: symbol_data_map where
  "ex_basket =
    [(''A'', ex_entry ''A'' 1.0302 0.02 0.01 1.0201 1),
     (''B'', ex_entry ''B'' 1.0608 0.04 0.02 1.0404 1),
     (''C'', ex_entry ''C'' 0.9118 (- 0.06) 0.03 0.9409 (- 1))]"

text \<open>The order that a cycle with both gates open places for an instrument, from what
  the instrument itself gives: none without a snapshot, none without a contract.\<close>

definition order_for :: "config \<Rightarrow> ib_env \<Rightarrow> symbol_info \<Rightarrow> (contract \<times> market_order) list" where
  "order_for cfg ib info =
    (case snapshot cfg ib info of
       None \<Rightarrow> []
     | Some e \<Rightarrow>
         (case front_month ib info of
            Inr (Some c) \<Rightarrow>
              [(c, \<lparr>action = (if latest_signal e = 1 then ''BUY'' else ''SELL''),
                    totalQuantity = contract_size cfg\<rparr>)]
          | _ \<Rightarrow> []))"

text \<open>A history of the length the script needs: a close that swings between 1 and 2 from
  one day to the next, the same for every instrument, and a broker that lists one
  contract for every instrument but the first of the universe, corn, for which the
  contract request raises.\<close>

definition ex_swing :: "nat \<Rightarrow> real" where
  "ex_swing i = (if even i then 1 else 2)"

definition ex_history :: "nat \<Rightarrow> bar list" where
  "ex_history n = map (\<lambda>i. ex_bar i (ex_swing i)) [0..<n]"

definition ex_listed_all :: "string \<Rightarrow> contract list reply" where
  "ex_listed_all s = Returns [\<lparr>conId = 7, con_symbol = s, lastTradeDateOrContractMonth = ''202403''\<rparr>]"

definition ex_listed_corn_raises :: "string \<Rightarrow> contract list reply" where
  "ex_listed_corn_raises s = (if s = ''ZC'' then Raises else ex_listed_all s)"

text \<open>The same history with every bar on one and the same day.\<close>

definition ex_same_day_history :: "bar list" where
  "ex_same_day_history = map (date_update (\<lambda>d. ex_day 0)) (ex_history 200)"

section \<open>Properties\<close>

subsection \<open>Front-month resolution\<close>

text \<open>The head of a stable sort is the first element of the list whose key is least.\<close>

lemma hd_sort_key_first_min:
  assumes "xs \<noteq> []"
  shows "\<exists>i<length xs. hd (sort_key f xs) = xs ! i \<and> (\<forall>j<length xs. f (xs ! i) \<le> f (xs ! j)) \<and>
           (\<forall>j<i. f (xs ! j) \<noteq> f (xs ! i))"
proof -
  from assms have ne: "sort_key f xs \<noteq> []"
    by (metis length_0_conv length_sort)
  then obtain h t where ht: "sort_key f xs = h # t" by (cases "sort_key f xs") auto
  have srt: "sorted (map f (h # t))" using sorted_sort_key [of f xs] ht by simp
  have mem: "set xs = set (h # t)" using set_sort [of f xs] ht by simp
  have le: "\<forall>y\<in>set xs. f h \<le> f y" using srt mem by auto
  have "filter (\<lambda>y. f y = f h) xs = filter (\<lambda>y. f y = f h) (h # t)"
    using sort_key_stable [of f "f h" xs] ht by simp
  then have "filter (\<lambda>y. f y = f h) xs = h # filter (\<lambda>y. f y = f h) t" by simp
  then obtain us vs where xs: "xs = us @ h # vs" and us: "\<forall>u\<in>set us. f u \<noteq> f h"
    unfolding filter_eq_Cons_iff by blast
  have i: "length us < length xs" using xs by simp
  have at: "xs ! length us = h" using xs by simp
  have before: "\<forall>j<length us. f (xs ! j) \<noteq> f h"
    using xs us by (simp add: nth_append)
  have "\<forall>j<length xs. f h \<le> f (xs ! j)" using le by simp
  with i at before ht show ?thesis by (intro exI [of _ "length us"]) simp
qed

lemma get_front_month_contract_returns:
  assumes "reqContractDetails ib (Future (symbol info) (exchange info) (currency info)) = Returns details"
  shows "get_front_month_contract ib info w =
    (let cands = filter (\<lambda>c. lastTradeDateOrContractMonth c \<noteq> [] \<and>
                               6 \<le> length (lastTradeDateOrContractMonth c)) details in
     if details = [] then (Inr None, print (WarningNoContractDetails (symbol info)) w)
     else if cands = [] then (Inr None, print (WarningNoValidContracts (symbol info)) w)
     else (Inr (Some (hd (sort_key lastTradeDateOrContractMonth cands))), w))"
proof -
  have "sort_key f xs \<noteq> []" if "xs \<noteq> []" for f :: "contract \<Rightarrow> string" and xs
    using that by (metis length_0_conv length_sort)
  then show ?thesis
    using assms by (auto simp: get_front_month_contract_def Let_def split: list.splits)
qed

text \<open>
  C2. Front-month resolution keeps the contracts whose expiry token is there and at least
  6 characters long. When none is left it returns no contract; otherwise it returns the
  candidate with the smallest token in the order of strings, and among several with that
  token the first in the filtered order.
\<close>

theorem front_month_resolution:
  assumes "reqContractDetails ib (Future (symbol info) (exchange info) (currency info)) = Returns details"
  shows "let cands = filter (\<lambda>c. lastTradeDateOrContractMonth c \<noteq> [] \<and>
                               6 \<le> length (lastTradeDateOrContractMonth c)) details in
    (cands = [] \<longrightarrow> fst (get_front_month_contract ib info w) = Inr None) \<and>
    (cands \<noteq> [] \<longrightarrow>
      (\<exists>i<length cands.
         fst (get_front_month_contract ib info w) = Inr (Some (cands ! i)) \<and>
         (\<forall>j<length cands. lastTradeDateOrContractMonth (cands ! i)
                             \<le> lastTradeDateOrContractMonth (cands ! j)) \<and>
         (\<forall>j<i. lastTradeDateOrContractMonth (cands ! j)
                   \<noteq> lastTradeDateOrContractMonth (cands ! i))))"
proof -
  define cands where "cands = filter (\<lambda>c. lastTradeDateOrContractMonth c \<noteq> [] \<and>
                               6 \<le> length (lastTradeDateOrContractMonth c)) details"
  have r: "get_front_month_contract ib info w =
     (if details = [] then (Inr None, print (WarningNoContractDetails (symbol info)) w)
      else if cands = [] then (Inr None, print (WarningNoValidContracts (symbol info)) w)
      else (Inr (Some (hd (sort_key lastTradeDateOrContractMonth cands))), w))"
    using get_front_month_contract_returns [OF assms, of w] by (simp add: cands_def Let_def)
  have a: "fst (get_front_month_contract ib info w) = Inr None" if "cands = []"
    using that r by simp
  have b: "\<exists>i<length cands.
         fst (get_front_month_contract ib info w) = Inr (Some (cands ! i)) \<and>
         (\<forall>j<length cands. lastTradeDateOrContractMonth (cands ! i)
                             \<le> lastTradeDateOrContractMonth (cands ! j)) \<and>
         (\<forall>j<i. lastTradeDateOrContractMonth (cands ! j)
                   \<noteq> lastTradeDateOrContractMonth (cands ! i))" if ne: "cands \<noteq> []"
  proof -
    from ne have "details \<noteq> []" by (auto simp: cands_def)
    with ne r have "fst (get_front_month_contract ib info w)
        = Inr (Some (hd (sort_key lastTradeDateOrContractMonth cands)))" by simp
    with hd_sort_key_first_min [OF ne, of lastTradeDateOrContractMonth] show ?thesis
      by auto
  qed
  from a b show ?thesis unfolding Let_def cands_def [symmetric] by blast
qed

text \<open>The example of the specification: of the tokens 202403, 202406 and 202312 (and two
  tokens that are too short) the contract tagged 202312 is returned.\<close>

theorem front_month_resolution_witness:
  "reqContractDetails
     (ex_broker Raises (Returns [ex_contract 1 ''202403'', ex_contract 2 ''202406'',
        ex_contract 3 ''202312'', ex_contract 4 '''', ex_contract 5 ''2024'']) 25)
     (Future (symbol ex_info) (exchange ex_info) (currency ex_info))
     = Returns [ex_contract 1 ''202403'', ex_contract 2 ''202406'',
        ex_contract 3 ''202312'', ex_contract 4 '''', ex_contract 5 ''2024''] \<and>
   fst (get_front_month_contract
     (ex_broker Raises (Returns [ex_contract 1 ''202403'', ex_contract 2 ''202406'',
        ex_contract 3 ''202312'', ex_contract 4 '''', ex_contract 5 ''2024'']) 25) ex_info world0)
     = Inr (Some (ex_contract 3 ''202312''))"
proof -
  let ?ds = "[ex_contract 1 ''202403'', ex_contract 2 ''202406'',
        ex_contract 3 ''202312'', ex_contract 4 '''', ex_contract 5 ''2024'']"
  let ?ib = "ex_broker Raises (Returns ?ds) 25"
  have h: "reqContractDetails ?ib (Future (symbol ex_info) (exchange ex_info) (currency ex_info))
     = Returns ?ds" by (simp add: ex_broker_def)
  have cands: "filter (\<lambda>c. lastTradeDateOrContractMonth c \<noteq> [] \<and>
       6 \<le> length (lastTradeDateOrContractMonth c)) ?ds
     = [ex_contract 1 ''202403'', ex_contract 2 ''202406'', ex_contract 3 ''202312'']"
    by (simp add: ex_contract_def)
  from front_month_resolution [OF h, of world0] h show ?thesis
    unfolding Let_def cands
    by (auto simp: ex_contract_def less_Suc_eq all_conj_distrib)
qed

text \<open>
  C8, as the specification states it, asks that every contract returned is a tradable
  contract: its token names a calendar month and the month is not past. The resolution
  looks at the length of the token only and never at a date: a token of six letters is
  returned, and so is a contract of December 1999 in January 2024.
\<close>

theorem front_month_not_tradable_counterexample:
  "fst (get_front_month_contract (ex_broker Raises (Returns [ex_contract 1 ''ABCDEF'']) 25)
          ex_info world0) = Inr (Some (ex_contract 1 ''ABCDEF'')) \<and>
   \<not> tradable_contract (today (ex_broker Raises (Returns [ex_contract 1 ''ABCDEF'']) 25))
       (ex_contract 1 ''ABCDEF'') \<and>
   fst (get_front_month_contract (ex_broker Raises (Returns [ex_contract 2 ''199912'']) 25)
          ex_info world0) = Inr (Some (ex_contract 2 ''199912'')) \<and>
   \<not> tradable_contract (today (ex_broker Raises (Returns [ex_contract 2 ''199912'']) 25))
       (ex_contract 2 ''199912'')"
  by (simp add: get_front_month_contract_def ex_broker_def ex_contract_def ex_info_def
      tradable_contract_def expiry_month_def number_of_def is_digit_def)

text \<open>
  C8, amended: every contract that front-month resolution returns is one of the contracts
  the broker listed for the instrument, and its expiry token is there and at least 6
  characters long.
\<close>

theorem front_month_token:
  assumes "fst (get_front_month_contract ib info w) = Inr (Some c)"
  shows "\<exists>details. reqContractDetails ib (Future (symbol info) (exchange info) (currency info))
            = Returns details \<and> c \<in> set details \<and>
          lastTradeDateOrContractMonth c \<noteq> [] \<and> 6 \<le> length (lastTradeDateOrContractMonth c)"
proof (cases "reqContractDetails ib (Future (symbol info) (exchange info) (currency info))")
  case Raises
  with assms show ?thesis by (simp add: get_front_month_contract_def)
next
  case (Returns details)
  define cands where "cands = filter (\<lambda>c. lastTradeDateOrContractMonth c \<noteq> [] \<and>
                               6 \<le> length (lastTradeDateOrContractMonth c)) details"
  from assms get_front_month_contract_returns [OF Returns, of w]
  have ne: "cands \<noteq> []" and c: "c = hd (sort_key lastTradeDateOrContractMonth cands)"
    by (auto simp: Let_def cands_def split: if_splits)
  from ne have "sort_key lastTradeDateOrContractMonth cands \<noteq> []"
    by (metis length_0_conv length_sort)
  then have "c \<in> set (sort_key lastTradeDateOrContractMonth cands)"
    unfolding c by (rule hd_in_set)
  then have "c \<in> set cands" by simp
  with Returns show ?thesis by (auto simp: cands_def)
qed

theorem front_month_token_witness:
  "fst (get_front_month_contract
          (ex_broker Raises (Returns [ex_contract 1 ''202403'', ex_contract 3 ''202312'']) 25)
          ex_info world0) = Inr (Some (ex_contract 3 ''202312'')) \<and>
   (\<exists>details. reqContractDetails
        (ex_broker Raises (Returns [ex_contract 1 ''202403'', ex_contract 3 ''202312'']) 25)
        (Future (symbol ex_info) (exchange ex_info) (currency ex_info)) = Returns details \<and>
      ex_contract 3 ''202312'' \<in> set details \<and>
      lastTradeDateOrContractMonth (ex_contract 3 ''202312'') \<noteq> [] \<and>
      6 \<le> length (lastTradeDateOrContractMonth (ex_contract 3 ''202312'')))"
proof -
  have h: "fst (get_front_month_contract
          (ex_broker Raises (Returns [ex_contract 1 ''202403'', ex_contract 3 ''202312'']) 25)
          ex_info world0) = Inr (Some (ex_contract 3 ''202312''))"
    by (simp add: get_front_month_contract_def ex_broker_def ex_contract_def)
  from h front_month_token [OF h] show ?thesis by blast
qed

subsection \<open>Indicators\<close>

lemma length_pct_change [simp]: "length (pct_change xs) = length xs"
  by (simp add: pct_change_def)

lemma nth_pct_change:
  "i < length xs \<Longrightarrow> pct_change xs ! i =
     (if i = 0 \<or> xs ! (i - 1) = 0 then None else Some (xs ! i / xs ! (i - 1) - 1))"
  by (simp add: pct_change_def)

lemma length_rolling [simp]: "length (rolling n agg xs) = length xs"
  by (simp add: rolling_def)

lemma nth_rolling:
  "i < length xs \<Longrightarrow> rolling n agg xs ! i =
     (if i + 1 < n then None
      else if list_all (\<lambda>v. v \<noteq> None) (take n (drop (i + 1 - n) xs))
           then agg (map the (take n (drop (i + 1 - n) xs))) else None)"
  by (simp add: rolling_def Let_def)

text \<open>Where the rolling deviation of the returns is defined, a full window of returns
  ends at the row, and the first return, which is missing, is not in it.\<close>

lemma rolling_std_defined:
  assumes i: "i < length xs" and d: "rolling n std (pct_change xs) ! i \<noteq> None"
  shows "n \<le> i \<and> 2 \<le> n"
proof -
  let ?w = "take n (drop (i + 1 - n) (pct_change xs))"
  from i d have n: "n \<le> i + 1" and all: "list_all (\<lambda>v. v \<noteq> None) ?w"
    and s: "std (map the ?w) \<noteq> None"
    by (auto simp: nth_rolling split: if_splits)
  from i n have len: "length ?w = n" by simp
  from s len have two: "2 \<le> n" by (auto simp: std_def split: if_splits)
  have "i + 1 \<noteq> n"
  proof
    assume e: "i + 1 = n"
    with two i have "?w ! 0 = pct_change xs ! 0" by simp
    also have "\<dots> = None" using i nth_pct_change [of 0 xs] by (cases xs) auto
    finally have "?w ! 0 = None" .
    moreover have "?w ! 0 \<noteq> None"
    proof -
      have "\<forall>k<length ?w. ?w ! k \<noteq> None" using all unfolding list_all_length .
      moreover have "0 < length ?w" unfolding len using two by linarith
      ultimately show ?thesis by blast
    qed
    ultimately show False by simp
  qed
  with n two show ?thesis by simp
qed

text \<open>Every row that \<open>compute_indicators\<close> returns is a row of its input with the
  derived columns of that row, none of them missing.\<close>

lemma compute_indicators_row:
  assumes "r \<in> set (compute_indicators cfg frame)"
  shows "\<exists>i<length frame.
     cont_row.truncate r = frame ! i \<and> close r = close (frame ! i) \<and>
     return r = pct_change (map close frame) ! i \<and>
     rolling_std_20 r = rolling (vol_window cfg) std (pct_change (map close frame)) ! i \<and>
     MA200 r = rolling (ma_window cfg) mean (map (\<lambda>r. Some (close r)) frame) ! i \<and>
     signal r = signal_of (close r) (MA200 r) \<and>
     return r \<noteq> None \<and> rolling_std_20 r \<noteq> None \<and> MA200 r \<noteq> None"
  using assms
  by (auto simp: compute_indicators_def Let_def dropna_def cont_row.defs ind_row.defs)

lemma std_Some: "2 \<le> length xs \<Longrightarrow> \<exists>s. std xs = Some s"
  by (simp add: std_def Let_def)

lemma pct_change_defined:
  assumes "i < length xs" "\<forall>x\<in>set xs. x \<noteq> 0"
  shows "pct_change xs ! i \<noteq> None \<longleftrightarrow> i \<noteq> 0"
proof -
  have "xs ! (i - 1) \<noteq> 0" using assms by (simp add: less_imp_diff_less)
  with assms(1) show ?thesis by (simp add: nth_pct_change)
qed

lemma rolling_std_defined_iff:
  assumes i: "i < length xs" and nz: "\<forall>x\<in>set xs. x \<noteq> 0" and n: "2 \<le> n"
  shows "rolling n std (pct_change xs) ! i \<noteq> None \<longleftrightarrow> n \<le> i"
proof
  assume "rolling n std (pct_change xs) ! i \<noteq> None"
  with i show "n \<le> i" using rolling_std_defined by blast
next
  assume ni: "n \<le> i"
  let ?w = "take n (drop (i + 1 - n) (pct_change xs))"
  from i ni have len: "length ?w = n" by simp
  have "?w ! k \<noteq> None" if k: "k < n" for k
  proof -
    from i ni k have "?w ! k = pct_change xs ! (i + 1 - n + k)" by simp
    moreover from i ni k have idx: "i + 1 - n + k < length xs" by simp
    moreover from ni have "i + 1 - n + k \<noteq> 0" by arith
    ultimately show ?thesis using pct_change_defined [OF idx nz] by metis
  qed
  then have all: "list_all (\<lambda>v. v \<noteq> None) ?w"
    unfolding list_all_length len by blast
  from len n have "2 \<le> length (map the ?w)" by simp
  from std_Some [OF this] obtain s where "std (map the ?w) = Some s" ..
  with all i ni show "rolling n std (pct_change xs) ! i \<noteq> None"
    by (simp add: nth_rolling)
qed

lemma rolling_mean_closes:
  assumes i: "i < length frame"
  shows "rolling n mean (map (\<lambda>r. Some (close r)) frame) ! i =
    (if i + 1 < n then None else mean (map close (take n (drop (i + 1 - n) frame))))"
proof -
  have "list_all (\<lambda>v. v \<noteq> None) (take n (drop (i + 1 - n) (map (\<lambda>r. Some (close r)) frame)))"
    by (simp add: list_all_iff take_map drop_map)
  moreover have "map the (take n (drop (i + 1 - n) (map (\<lambda>r. Some (close r)) frame)))
      = map close (take n (drop (i + 1 - n) frame))"
    by (simp add: take_map drop_map)
  ultimately show ?thesis using i by (simp add: nth_rolling)
qed

lemma rolling_mean_defined_iff:
  assumes i: "i < length frame" and n: "1 \<le> n"
  shows "rolling n mean (map (\<lambda>r. Some (close r)) frame) ! i \<noteq> None \<longleftrightarrow> n \<le> i + 1"
proof (cases "i + 1 < n")
  case True
  with i show ?thesis by (simp add: rolling_mean_closes)
next
  case False
  with i n have "take n (drop (i + 1 - n) frame) \<noteq> []" by auto
  with False i show ?thesis by (simp add: rolling_mean_closes mean_def)
qed

lemma filter_le_upt: "filter (\<lambda>i. k \<le> i) [0..<n] = [k..<n]"
  by (induction n) auto

lemma map_nth_from: "map (\<lambda>i. xs ! i) [k..<length xs] = drop k xs"
proof -
  have "drop k xs = drop k (map (\<lambda>i. xs ! i) [0..<length xs])" by (simp only: map_nth)
  also have "\<dots> = map (\<lambda>i. xs ! i) [k..<length xs]" by (simp add: drop_map)
  finally show ?thesis by simp
qed

text \<open>With no zero close and windows of at least 2 and 1, the derived rows are those of
  the positions from \<open>max vol_window (ma_window - 1)\<close> on.\<close>

lemma compute_indicators_explicit:
  assumes nz: "\<forall>r\<in>set frame. close r \<noteq> 0"
    and vw: "2 \<le> vol_window cfg" and mw: "1 \<le> ma_window cfg"
  shows "compute_indicators cfg frame =
    map (\<lambda>i. cont_row.extend (frame ! i)
          (ind_row.fields (pct_change (map close frame) ! i)
             (rolling (vol_window cfg) std (pct_change (map close frame)) ! i)
             (rolling (ma_window cfg) mean (map (\<lambda>r. Some (close r)) frame) ! i)
             (signal_of (close (frame ! i))
                (rolling (ma_window cfg) mean (map (\<lambda>r. Some (close r)) frame) ! i))))
      [max (vol_window cfg) (ma_window cfg - 1)..<length frame]"
proof -
  let ?k = "max (vol_window cfg) (ma_window cfg - 1)"
  let ?n = "length frame"
  let ?rets = "pct_change (map close frame)"
  let ?stds = "rolling (vol_window cfg) std ?rets"
  let ?mas = "rolling (ma_window cfg) mean (map (\<lambda>r. Some (close r)) frame)"
  let ?mk = "\<lambda>i. cont_row.extend (frame ! i)
                   (ind_row.fields (?rets ! i) (?stds ! i) (?mas ! i)
                      (signal_of (close (frame ! i)) (?mas ! i)))"
  let ?keep = "\<lambda>r. return r \<noteq> None \<and> rolling_std_20 r \<noteq> None \<and> MA200 r \<noteq> None"
  have nz': "\<forall>x\<in>set (map close frame). x \<noteq> 0" using nz by simp
  have keep: "?keep (?mk i) \<longleftrightarrow> ?k \<le> i" if i: "i < ?n" for i
  proof -
    have "?keep (?mk i) \<longleftrightarrow> ?rets ! i \<noteq> None \<and> ?stds ! i \<noteq> None \<and> ?mas ! i \<noteq> None"
      by (simp add: cont_row.defs ind_row.defs)
    also have "\<dots> \<longleftrightarrow> i \<noteq> 0 \<and> vol_window cfg \<le> i \<and> ma_window cfg \<le> i + 1"
      using pct_change_defined [OF _ nz', of i] rolling_std_defined_iff [OF _ nz' vw, of i]
        rolling_mean_defined_iff [OF i mw] i by simp
    also have "\<dots> \<longleftrightarrow> ?k \<le> i" using vw by auto
    finally show ?thesis .
  qed
  have "compute_indicators cfg frame = map ?mk (filter (\<lambda>i. ?keep (?mk i)) [0..<?n])"
    by (simp add: compute_indicators_def Let_def dropna_def filter_map comp_def)
  also have "filter (\<lambda>i. ?keep (?mk i)) [0..<?n] = filter (\<lambda>i. ?k \<le> i) [0..<?n]"
  proof (rule filter_cong [OF refl])
    fix i assume "i \<in> set [0..<?n]"
    then have "i < ?n" by simp
    then show "?keep (?mk i) = (?k \<le> i)" by (rule keep)
  qed
  also have "\<dots> = [?k..<?n]"
    by (rule filter_le_upt)
  finally show ?thesis .
qed

text \<open>So they are the input rows without the first \<open>max vol_window (ma_window - 1)\<close>.\<close>

lemma compute_indicators_rows_exact:
  assumes nz: "\<forall>r\<in>set frame. close r \<noteq> 0"
    and vw: "2 \<le> vol_window cfg" and mw: "1 \<le> ma_window cfg"
  shows "map cont_row.truncate (compute_indicators cfg frame)
    = drop (max (vol_window cfg) (ma_window cfg - 1)) frame"
proof -
  have "map cont_row.truncate (compute_indicators cfg frame)
      = map (\<lambda>i. frame ! i) [max (vol_window cfg) (ma_window cfg - 1)..<length frame]"
    unfolding compute_indicators_explicit [OF assms]
    by (simp add: cont_row.defs ind_row.defs comp_def)
  then show ?thesis by (simp only: map_nth_from)
qed

text \<open>The last derived row of a series that is long enough is the one of its last bar.\<close>

lemma compute_indicators_last:
  assumes nz: "\<forall>r\<in>set frame. close r \<noteq> 0"
    and vw: "2 \<le> vol_window cfg" and mw: "1 \<le> ma_window cfg"
    and long: "max (vol_window cfg) (ma_window cfg - 1) < length frame"
  shows "compute_indicators cfg frame \<noteq> []"
    and "rolling_std_20 (last (compute_indicators cfg frame))
          = rolling (vol_window cfg) std (pct_change (map close frame)) ! (length frame - 1)"
    and "signal (last (compute_indicators cfg frame))
          = signal_of (close (frame ! (length frame - 1)))
              (rolling (ma_window cfg) mean (map (\<lambda>r. Some (close r)) frame) ! (length frame - 1))"
proof -
  let ?k = "max (vol_window cfg) (ma_window cfg - 1)"
  from long have ne: "[?k..<length frame] \<noteq> []" by auto
  from long have l: "last [?k..<length frame] = length frame - 1" by simp
  note e = compute_indicators_explicit [OF nz vw mw]
  show "compute_indicators cfg frame \<noteq> []" unfolding e using ne by simp
  show "rolling_std_20 (last (compute_indicators cfg frame))
          = rolling (vol_window cfg) std (pct_change (map close frame)) ! (length frame - 1)"
    unfolding e last_map [OF ne] l by (simp add: cont_row.defs ind_row.defs)
  show "signal (last (compute_indicators cfg frame))
          = signal_of (close (frame ! (length frame - 1)))
              (rolling (ma_window cfg) mean (map (\<lambda>r. Some (close r)) frame) ! (length frame - 1))"
    unfolding e last_map [OF ne] l by (simp add: cont_row.defs ind_row.defs)
qed

lemma close_attach_symbol [simp]: "close (attach_symbol s b) = close b"
  by (simp add: attach_symbol_def bar.defs cont_row.defs)

lemma length_ex_frame [simp]: "length (ex_frame cs) = length cs"
  by (simp add: ex_frame_def ex_bars_def)

lemma close_ex_frame: "r \<in> set (ex_frame cs) \<Longrightarrow> close r \<in> set cs"
  by (auto simp: ex_frame_def ex_bars_def ex_bar_def in_set_enumerate_eq)

text \<open>The two example series, evaluated.\<close>

lemma ex_frame_eval:
  "compute_indicators (ex_config us) (ex_frame [1, 1, 2, 6]) = [ex_row (ex_frame [1, 1, 2, 6] ! 3) 2 1 4 1]"
  "compute_indicators (ex_config us) (ex_frame [2, 2, 2, 2, 2]) =
     [ex_row (ex_frame [2, 2, 2, 2, 2] ! 3) 0 0 2 (- 1), ex_row (ex_frame [2, 2, 2, 2, 2] ! 4) 0 0 2 (- 1)]"
  by (simp_all add: compute_indicators_def ex_config_def ex_frame_def ex_bars_def attach_symbol_def
      ex_bar_def ex_row_def pct_change_def rolling_def std_def mean_def dropna_def signal_of_def
      bar.defs cont_row.defs ind_row.defs)

subsection \<open>The trend signal\<close>

text \<open>
  C3. Every derived row has a moving average, the mean of the \<open>ma_window\<close> closes that
  end at the row, and its signal is \<open>1\<close> if its close is greater than that average and
  \<open>-1\<close> otherwise: no other value occurs, and a close equal to the average gives \<open>-1\<close>.
\<close>

theorem trend_signal:
  assumes "r \<in> set (compute_indicators cfg frame)"
  shows "\<exists>i<length frame. \<exists>m.
     cont_row.truncate r = frame ! i \<and>
     mean (map close (take (ma_window cfg) (drop (i + 1 - ma_window cfg) frame))) = Some m \<and>
     MA200 r = Some m \<and>
     signal r = (if close r > m then 1 else - 1)"
proof -
  from compute_indicators_row [OF assms] obtain i where i: "i < length frame"
    and t: "cont_row.truncate r = frame ! i"
    and ma: "MA200 r = rolling (ma_window cfg) mean (map (\<lambda>r. Some (close r)) frame) ! i"
    and sg: "signal r = signal_of (close r) (MA200 r)"
    and d: "MA200 r \<noteq> None"
    by blast
  from d obtain m where m: "MA200 r = Some m" by auto
  from ma m i have "mean (map close (take (ma_window cfg) (drop (i + 1 - ma_window cfg) frame))) = Some m"
    by (simp add: rolling_mean_closes split: if_splits)
  moreover from sg m have "signal r = (if close r > m then 1 else - 1)"
    by (simp add: signal_of_def)
  ultimately show ?thesis using i t m by blast
qed


lemma ex_row_simps [simp]:
  "return (ex_row r ret sd ma sg) = Some ret"
  "rolling_std_20 (ex_row r ret sd ma sg) = Some sd"
  "MA200 (ex_row r ret sd ma sg) = Some ma"
  "signal (ex_row r ret sd ma sg) = sg"
  "close (ex_row r ret sd ma sg) = close r"
  "cont_row.truncate (ex_row r ret sd ma sg) = r"
  by (simp_all add: ex_row_def cont_row.defs ind_row.defs)

lemma ex_frame_nth:
  "close (ex_frame [1, 1, 2, 6] ! 3) = 6"
  "close (ex_frame [2, 2, 2, 2, 2] ! 4) = 2"
  by (simp_all add: ex_frame_def ex_bars_def ex_bar_def)

text \<open>Two rows: a close of 6 over an average of 4 gives \<open>1\<close>; a close of 2 on an average
  of 2 gives \<open>-1\<close>.\<close>

theorem trend_signal_witness:
  "ex_row (ex_frame [1, 1, 2, 6] ! 3) 2 1 4 1
     \<in> set (compute_indicators (ex_config []) (ex_frame [1, 1, 2, 6])) \<and>
   (\<exists>i<length (ex_frame [1, 1, 2, 6]). \<exists>m.
     cont_row.truncate (ex_row (ex_frame [1, 1, 2, 6] ! 3) 2 1 4 1) = ex_frame [1, 1, 2, 6] ! i \<and>
     mean (map close (take (ma_window (ex_config []))
        (drop (i + 1 - ma_window (ex_config [])) (ex_frame [1, 1, 2, 6])))) = Some m \<and>
     MA200 (ex_row (ex_frame [1, 1, 2, 6] ! 3) 2 1 4 1) = Some m \<and>
     signal (ex_row (ex_frame [1, 1, 2, 6] ! 3) 2 1 4 1)
       = (if close (ex_row (ex_frame [1, 1, 2, 6] ! 3) 2 1 4 1) > m then 1 else - 1)) \<and>
   close (ex_row (ex_frame [1, 1, 2, 6] ! 3) 2 1 4 1) = 6 \<and>
   MA200 (ex_row (ex_frame [1, 1, 2, 6] ! 3) 2 1 4 1) = Some 4 \<and>
   signal (ex_row (ex_frame [1, 1, 2, 6] ! 3) 2 1 4 1) = 1 \<and>
   ex_row (ex_frame [2, 2, 2, 2, 2] ! 4) 0 0 2 (- 1)
     \<in> set (compute_indicators (ex_config []) (ex_frame [2, 2, 2, 2, 2])) \<and>
   close (ex_row (ex_frame [2, 2, 2, 2, 2] ! 4) 0 0 2 (- 1)) = 2 \<and>
   MA200 (ex_row (ex_frame [2, 2, 2, 2, 2] ! 4) 0 0 2 (- 1)) = Some 2 \<and>
   signal (ex_row (ex_frame [2, 2, 2, 2, 2] ! 4) 0 0 2 (- 1)) = - 1"
proof -
  have h: "ex_row (ex_frame [1, 1, 2, 6] ! 3) 2 1 4 1
     \<in> set (compute_indicators (ex_config []) (ex_frame [1, 1, 2, 6]))"
    by (simp add: ex_frame_eval)
  have h2: "ex_row (ex_frame [2, 2, 2, 2, 2] ! 4) 0 0 2 (- 1)
     \<in> set (compute_indicators (ex_config []) (ex_frame [2, 2, 2, 2, 2]))"
    by (simp add: ex_frame_eval)
  from h h2 trend_signal [OF h] show ?thesis
    by (simp only: ex_row_simps ex_frame_nth)
qed

subsection \<open>Volatility of a constant series\<close>

text \<open>
  C9. For a series whose close is one constant other than zero and a volatility window
  of at least 2, the rolling sample standard deviation of the returns is missing in the
  first \<open>vol_window\<close> rows and exactly 0 in every row after them; every derived row has
  volatility 0.
\<close>

theorem constant_close_volatility:
  assumes c: "\<forall>r\<in>set frame. close r = c" and nz: "c \<noteq> 0" and n: "2 \<le> vol_window cfg"
  shows "(\<forall>i<length frame.
            rolling (vol_window cfg) std (pct_change (map close frame)) ! i
              = (if i < vol_window cfg then None else Some 0)) \<and>
         (\<forall>r\<in>set (compute_indicators cfg frame). rolling_std_20 r = Some 0)"
proof -
  let ?n = "vol_window cfg"
  let ?rets = "pct_change (map close frame)"
  have ret: "?rets ! j = Some 0" if j: "j < length frame" "j \<noteq> 0" for j
  proof -
    from j c have "close (frame ! j) = c" "close (frame ! (j - 1)) = c"
      by (simp_all add: less_imp_diff_less)
    with j nz show ?thesis by (simp add: nth_pct_change)
  qed
  have col: "rolling ?n std ?rets ! i = (if i < ?n then None else Some 0)"
    if i: "i < length frame" for i
  proof (cases "i < ?n")
    case True
    have "rolling ?n std ?rets ! i = None"
    proof (rule ccontr)
      assume "rolling ?n std ?rets ! i \<noteq> None"
      with i have "?n \<le> i" using rolling_std_defined [of i "map close frame" ?n] by simp
      with True show False by simp
    qed
    with True show ?thesis by simp
  next
    case False
    let ?w = "take ?n (drop (i + 1 - ?n) ?rets)"
    from False i have len: "length ?w = ?n" by simp
    have "?w ! k = Some 0" if k: "k < ?n" for k
    proof -
      from False i k have "?w ! k = ?rets ! (i + 1 - ?n + k)" by simp
      moreover from False i k have idx: "i + 1 - ?n + k < length frame" by simp
      moreover from False have pos: "i + 1 - ?n + k \<noteq> 0" by arith
      ultimately show ?thesis using ret [OF idx pos] by metis
    qed
    with len have w: "?w = replicate ?n (Some 0)"
      by (simp only: list_eq_iff_nth_eq length_replicate) simp
    have "std (replicate ?n 0) = Some 0"
      using n by (simp add: std_def Let_def sum_list_replicate)
    with w False i show ?thesis by (simp add: nth_rolling list_all_iff)
  qed
  have rows: "rolling_std_20 r = Some 0" if r: "r \<in> set (compute_indicators cfg frame)" for r
  proof -
    from compute_indicators_row [OF r] obtain i where i: "i < length frame"
      and s: "rolling_std_20 r = rolling ?n std ?rets ! i" and d: "rolling_std_20 r \<noteq> None"
      by blast
    from s d col [OF i] show ?thesis by (simp split: if_splits)
  qed
  from col rows show ?thesis by blast
qed

theorem constant_close_volatility_witness:
  "map close (ex_frame [2, 2, 2, 2, 2]) = [2, 2, 2, 2, 2] \<and> (2::real) \<noteq> 0 \<and>
   2 \<le> vol_window (ex_config []) \<and>
   rolling (vol_window (ex_config [])) std (pct_change (map close (ex_frame [2, 2, 2, 2, 2])))
     = [None, None, None, Some 0, Some 0] \<and>
   map rolling_std_20 (compute_indicators (ex_config []) (ex_frame [2, 2, 2, 2, 2]))
     = [Some 0, Some 0]"
proof -
  have a: "\<forall>r\<in>set (ex_frame [2, 2, 2, 2, 2]). close r = 2"
    using close_ex_frame [of _ "[2, 2, 2, 2, 2]"] by auto
  have b: "(2::real) \<noteq> 0" by simp
  have c: "2 \<le> vol_window (ex_config [])" by (simp add: ex_config_def)
  let ?col = "rolling (vol_window (ex_config [])) std (pct_change (map close (ex_frame [2, 2, 2, 2, 2])))"
  from constant_close_volatility [OF a b c]
  have col: "\<forall>i<5. ?col ! i = (if i < 3 then None else Some 0)"
    and rows: "\<forall>r\<in>set (compute_indicators (ex_config []) (ex_frame [2, 2, 2, 2, 2])).
       rolling_std_20 r = Some 0"
    by (simp_all add: ex_config_def)
  have "length ?col = 5" by simp
  with col have "?col = [None, None, None, Some 0, Some 0]"
    by (simp add: list_eq_iff_nth_eq less_Suc_eq eval_nat_numeral)
  moreover from rows have "map rolling_std_20 (compute_indicators (ex_config []) (ex_frame [2, 2, 2, 2, 2]))
     = [Some 0, Some 0]"
    by (simp add: ex_frame_eval)
  moreover have "map close (ex_frame [2, 2, 2, 2, 2]) = [2, 2, 2, 2, 2]"
    by (simp add: ex_frame_def ex_bars_def ex_bar_def)
  ultimately show ?thesis using c by simp
qed

subsection \<open>History behind a derived row\<close>

text \<open>
  C6, as the specification states it, asks for at least \<open>max vol_window ma_window\<close>
  observations before every derived row. With the script's own windows, 20 and 200, a
  series of 200 bars has no such position, and yet its last bar, which has 199 bars
  before it, gives a derived row: the moving average of 200 closes counts the row's own.
\<close>

theorem indicator_rows_short_history_counterexample:
  "length (ex_frame (replicate 200 100)) = 200 \<and>
   max (vol_window mlm_config) (ma_window mlm_config) = 200 \<and>
   map cont_row.truncate (compute_indicators mlm_config (ex_frame (replicate 200 100)))
     = [ex_frame (replicate 200 100) ! 199]"
proof -
  let ?f = "ex_frame (replicate 200 100)"
  have len: "length ?f = 200" by simp
  have nz: "\<forall>r\<in>set ?f. close r \<noteq> 0"
    using close_ex_frame [of _ "replicate 200 100"] by auto
  have "map cont_row.truncate (compute_indicators mlm_config ?f)
      = drop (max (vol_window mlm_config) (ma_window mlm_config - 1)) ?f"
    by (rule compute_indicators_rows_exact [OF nz])
       (simp_all add: mlm_config_def VOL_WINDOW_def MA_WINDOW_def)
  also have "\<dots> = drop 199 ?f"
    by (simp add: mlm_config_def VOL_WINDOW_def MA_WINDOW_def)
  also have "\<dots> = [?f ! 199]"
    using Cons_nth_drop_Suc [of 199 ?f] len by simp
  finally show ?thesis
    using len by (simp add: mlm_config_def VOL_WINDOW_def MA_WINDOW_def)
qed

text \<open>
  C6, amended: every derived row stands at a position of the input with at least
  \<open>max vol_window (ma_window - 1)\<close> rows before it, and none of its derived columns is
  missing or partial: the return is the quotient with the close before, the volatility is
  the deviation of a full window of returns and the average the mean of a full window of
  closes.
\<close>

theorem indicator_rows_history:
  assumes "r \<in> set (compute_indicators cfg frame)"
  shows "\<exists>i<length frame.
     cont_row.truncate r = frame ! i \<and>
     max (vol_window cfg) (ma_window cfg - 1) \<le> i \<and>
     return r = Some (close (frame ! i) / close (frame ! (i - 1)) - 1) \<and>
     rolling_std_20 r = std (map the (take (vol_window cfg)
        (drop (i + 1 - vol_window cfg) (pct_change (map close frame))))) \<and>
     rolling_std_20 r \<noteq> None \<and>
     MA200 r = mean (map close (take (ma_window cfg) (drop (i + 1 - ma_window cfg) frame))) \<and>
     MA200 r \<noteq> None"
proof -
  from compute_indicators_row [OF assms] obtain i where i: "i < length frame"
    and t: "cont_row.truncate r = frame ! i"
    and ret: "return r = pct_change (map close frame) ! i"
    and sd: "rolling_std_20 r = rolling (vol_window cfg) std (pct_change (map close frame)) ! i"
    and ma: "MA200 r = rolling (ma_window cfg) mean (map (\<lambda>r. Some (close r)) frame) ! i"
    and d: "return r \<noteq> None" "rolling_std_20 r \<noteq> None" "MA200 r \<noteq> None"
    by blast
  from i have i': "i < length (map close frame)" by simp
  from d(2) sd have vw: "vol_window cfg \<le> i"
    using rolling_std_defined [OF i'] by simp
  from d(3) ma have mw: "ma_window cfg \<le> i + 1"
    using rolling_mean_defined_iff [OF i] rolling_mean_closes [OF i, of "ma_window cfg"]
    by (auto split: if_splits)
  from d(1) ret i have r: "return r = Some (close (frame ! i) / close (frame ! (i - 1)) - 1)"
    by (auto simp: nth_pct_change less_imp_diff_less split: if_splits)
  from d(2) sd i have s: "rolling_std_20 r = std (map the (take (vol_window cfg)
        (drop (i + 1 - vol_window cfg) (pct_change (map close frame)))))"
    by (auto simp: nth_rolling split: if_splits)
  from d(3) ma i have m: "MA200 r = mean (map close (take (ma_window cfg)
        (drop (i + 1 - ma_window cfg) frame)))"
    by (auto simp: rolling_mean_closes split: if_splits)
  from vw mw have "max (vol_window cfg) (ma_window cfg - 1) \<le> i" by simp
  with i t r s m d show ?thesis by blast
qed

theorem indicator_rows_history_witness:
  "ex_row (ex_frame [1, 1, 2, 6] ! 3) 2 1 4 1
     \<in> set (compute_indicators (ex_config []) (ex_frame [1, 1, 2, 6])) \<and>
   (\<exists>i<length (ex_frame [1, 1, 2, 6]).
     cont_row.truncate (ex_row (ex_frame [1, 1, 2, 6] ! 3) 2 1 4 1) = ex_frame [1, 1, 2, 6] ! i \<and>
     max (vol_window (ex_config [])) (ma_window (ex_config []) - 1) \<le> i \<and>
     return (ex_row (ex_frame [1, 1, 2, 6] ! 3) 2 1 4 1)
       = Some (close (ex_frame [1, 1, 2, 6] ! i) / close (ex_frame [1, 1, 2, 6] ! (i - 1)) - 1) \<and>
     rolling_std_20 (ex_row (ex_frame [1, 1, 2, 6] ! 3) 2 1 4 1)
       = std (map the (take (vol_window (ex_config []))
           (drop (i + 1 - vol_window (ex_config []))
              (pct_change (map close (ex_frame [1, 1, 2, 6])))))) \<and>
     rolling_std_20 (ex_row (ex_frame [1, 1, 2, 6] ! 3) 2 1 4 1) \<noteq> None \<and>
     MA200 (ex_row (ex_frame [1, 1, 2, 6] ! 3) 2 1 4 1)
       = mean (map close (take (ma_window (ex_config []))
           (drop (i + 1 - ma_window (ex_config [])) (ex_frame [1, 1, 2, 6])))) \<and>
     MA200 (ex_row (ex_frame [1, 1, 2, 6] ! 3) 2 1 4 1) \<noteq> None) \<and>
   max (vol_window (ex_config [])) (ma_window (ex_config []) - 1) = 3"
proof -
  have h: "ex_row (ex_frame [1, 1, 2, 6] ! 3) 2 1 4 1
     \<in> set (compute_indicators (ex_config []) (ex_frame [1, 1, 2, 6]))"
    by (simp add: ex_frame_eval)
  have "max (vol_window (ex_config [])) (ma_window (ex_config []) - 1) = 3"
    by (simp add: ex_config_def)
  with h indicator_rows_history [OF h] show ?thesis by blast
qed

subsection \<open>The first loop\<close>

lemma print_fields [simp]:
  "printed (print l w) = printed w @ [l]" "placed (print l w) = placed w"
  "slept (print l w) = slept w" "disconnects (print l w) = disconnects w"
  by (simp_all add: print_def)

lemma disconnect_fields [simp]:
  "printed (disconnect w) = printed w" "placed (disconnect w) = placed w"
  "slept (disconnect w) = slept w" "disconnects (disconnect w) = disconnects w + 1"
  by (simp_all add: disconnect_def)

lemma sleep_fields [simp]:
  "printed (sleep n w) = printed w" "placed (sleep n w) = placed w"
  "slept (sleep n w) = slept w @ [n]" "disconnects (sleep n w) = disconnects w"
  by (simp_all add: sleep_def)

lemma get_continuous_data_cases:
  "reqHistoricalData ib (ContFuture (symbol info) (exchange info) (currency info)) = Raises
    \<Longrightarrow> get_continuous_data ib info w = (None, print (ErrorFetchFailed (symbol info)) w)"
  "reqHistoricalData ib (ContFuture (symbol info) (exchange info) (currency info)) = Returns []
    \<Longrightarrow> get_continuous_data ib info w = (None, print (WarningNoBars (symbol info)) w)"
  "reqHistoricalData ib (ContFuture (symbol info) (exchange info) (currency info)) = Returns bars
    \<Longrightarrow> bars \<noteq> []
    \<Longrightarrow> get_continuous_data ib info w = (Some (map (attach_symbol (symbol info)) bars), w)"
  by (simp_all add: get_continuous_data_def)

lemma fetch_one_cases:
  "reqHistoricalData ib (ContFuture (symbol info) (exchange info) (currency info)) = Raises
    \<Longrightarrow> fetch_one cfg ib info w = (None, print (ErrorFetchFailed (symbol info)) w)"
  "reqHistoricalData ib (ContFuture (symbol info) (exchange info) (currency info)) = Returns []
    \<Longrightarrow> fetch_one cfg ib info w = (None, print (WarningNoBars (symbol info)) w)"
  "reqHistoricalData ib (ContFuture (symbol info) (exchange info) (currency info)) = Returns bars
    \<Longrightarrow> bars \<noteq> []
    \<Longrightarrow> compute_indicators cfg (map (attach_symbol (symbol info)) bars) = []
    \<Longrightarrow> fetch_one cfg ib info w = (None, print (WarningNotEnoughData (symbol info)) w)"
  "reqHistoricalData ib (ContFuture (symbol info) (exchange info) (currency info)) = Returns bars
    \<Longrightarrow> bars \<noteq> []
    \<Longrightarrow> compute_indicators cfg (map (attach_symbol (symbol info)) bars) = ind
    \<Longrightarrow> ind \<noteq> []
    \<Longrightarrow> fetch_one cfg ib info w =
          (Some \<lparr>df = ind, latest_signal = signal (last ind),
                 latest_vol = rolling_std_20 (last ind)\<rparr>, w)"
  by (simp_all add: fetch_one_def get_continuous_data_cases Let_def)

lemma fetch_one_eq:
  "fetch_one cfg ib info w =
     (snapshot cfg ib info, w\<lparr>printed := printed w @ printed (snd (fetch_one cfg ib info world0))\<rparr>)"
proof (cases "reqHistoricalData ib (ContFuture (symbol info) (exchange info) (currency info))")
  case Raises
  then show ?thesis by (simp add: snapshot_def fetch_one_cases print_def world0_def)
next
  case (Returns bars)
  show ?thesis
  proof (cases "bars = []")
    case True
    with Returns show ?thesis by (simp add: snapshot_def fetch_one_cases print_def world0_def)
  next
    case False
    show ?thesis
    proof (cases "compute_indicators cfg (map (attach_symbol (symbol info)) bars) = []")
      case True
      with Returns False show ?thesis
        by (simp add: snapshot_def fetch_one_cases(3) print_def world0_def)
    next
      case ne: False
      from fetch_one_cases(4) [OF Returns False refl ne]
      show ?thesis by (simp add: snapshot_def world0_def)
    qed
  qed
qed

lemma fetch_one_fst: "fst (fetch_one cfg ib info w) = snapshot cfg ib info"
  by (subst fetch_one_eq) simp

lemma fetch_all_eq:
  "\<exists>ls. fetch_all cfg ib us m w =
     (foldl (\<lambda>m info. case snapshot cfg ib info of None \<Rightarrow> m
                        | Some e \<Rightarrow> AList.update (symbol info) e m) m us,
      w\<lparr>printed := printed w @ ls\<rparr>)"
proof (induction us arbitrary: m w)
  case Nil
  have "w = w\<lparr>printed := printed w @ []\<rparr>" by simp
  then show ?case by (simp only: fetch_all.simps foldl_Nil) blast
next
  case (Cons info rest)
  let ?w1 = "w\<lparr>printed := printed w @ printed (snd (fetch_one cfg ib info world0))\<rparr>"
  have f: "fetch_one cfg ib info w = (snapshot cfg ib info, ?w1)" by (rule fetch_one_eq)
  show ?case
  proof (cases "snapshot cfg ib info")
    case None
    from Cons.IH [of m ?w1] obtain ls where
      "fetch_all cfg ib rest m ?w1 =
        (foldl (\<lambda>m info. case snapshot cfg ib info of None \<Rightarrow> m
                        | Some e \<Rightarrow> AList.update (symbol info) e m) m rest,
         ?w1\<lparr>printed := printed ?w1 @ ls\<rparr>)" by blast
    with f None show ?thesis by simp (rule exI, rule refl)
  next
    case (Some e)
    from Cons.IH [of "AList.update (symbol info) e m" ?w1] obtain ls where
      "fetch_all cfg ib rest (AList.update (symbol info) e m) ?w1 =
        (foldl (\<lambda>m info. case snapshot cfg ib info of None \<Rightarrow> m
                        | Some e \<Rightarrow> AList.update (symbol info) e m)
           (AList.update (symbol info) e m) rest,
         ?w1\<lparr>printed := printed ?w1 @ ls\<rparr>)" by blast
    with f Some show ?thesis by simp (rule exI, rule refl)
  qed
qed

lemma update_fresh: "k \<notin> fst ` set al \<Longrightarrow> AList.update k v al = al @ [(k, v)]"
  by (induction al) auto

text \<open>With one entry a symbol, the map is the list of the instruments that gave a
  snapshot, in the order of the universe.\<close>

lemma basket_distinct:
  assumes "distinct (map symbol us)" "fst ` set m \<inter> symbol ` set us = {}"
  shows "foldl (\<lambda>m info. case snapshot cfg ib info of None \<Rightarrow> m
                        | Some e \<Rightarrow> AList.update (symbol info) e m) m us
    = m @ map (\<lambda>info. (symbol info, the (snapshot cfg ib info)))
            (filter (\<lambda>info. snapshot cfg ib info \<noteq> None) us)"
  using assms
proof (induction us arbitrary: m)
  case Nil
  show ?case by simp
next
  case (Cons info rest)
  show ?case
  proof (cases "snapshot cfg ib info")
    case None
    with Cons show ?thesis by auto
  next
    case (Some e)
    from Cons.prems have fresh: "symbol info \<notin> fst ` set m" by auto
    have m': "AList.update (symbol info) e m = m @ [(symbol info, e)]"
      using fresh by (rule update_fresh)
    from Cons.prems have "fst ` set (m @ [(symbol info, e)]) \<inter> symbol ` set rest = {}"
      by auto
    with Cons.IH [of "m @ [(symbol info, e)]"] Cons.prems Some m' show ?thesis by simp
  qed
qed

subsection \<open>The second loop and the run\<close>

text \<open>Contract resolution gives the same result whatever was printed or placed before,
  and only prints.\<close>

lemma get_front_month_contract_uniform:
  "\<exists>r ls. \<forall>w. get_front_month_contract ib info w = (r, w\<lparr>printed := printed w @ ls\<rparr>)"
proof (cases "reqContractDetails ib (Future (symbol info) (exchange info) (currency info))")
  case Raises
  then have "\<forall>w. get_front_month_contract ib info w
      = (Inl BrokerException, w\<lparr>printed := printed w @ []\<rparr>)"
    by (simp add: get_front_month_contract_def)
  then show ?thesis by blast
next
  case (Returns details)
  let ?cands = "filter (\<lambda>c. lastTradeDateOrContractMonth c \<noteq> [] \<and>
                               6 \<le> length (lastTradeDateOrContractMonth c)) details"
  note r = get_front_month_contract_returns [OF Returns]
  consider "details = []" | "details \<noteq> []" "?cands = []" | "details \<noteq> []" "?cands \<noteq> []"
    by blast
  then show ?thesis
  proof cases
    case 1
    with r have "\<forall>w. get_front_month_contract ib info w
      = (Inr None, w\<lparr>printed := printed w @ [WarningNoContractDetails (symbol info)]\<rparr>)"
      by (simp add: print_def)
    then show ?thesis by blast
  next
    case 2
    with r have "\<forall>w. get_front_month_contract ib info w
      = (Inr None, w\<lparr>printed := printed w @ [WarningNoValidContracts (symbol info)]\<rparr>)"
      by (simp add: print_def)
    then show ?thesis by blast
  next
    case 3
    with r have "\<forall>w. get_front_month_contract ib info w
      = (Inr (Some (hd (sort_key lastTradeDateOrContractMonth ?cands))),
         w\<lparr>printed := printed w @ []\<rparr>)"
      by (simp add: Let_def)
    then show ?thesis by blast
  qed
qed

lemma get_front_month_contract_fst:
  "fst (get_front_month_contract ib info w) = front_month ib info"
  using get_front_month_contract_uniform [of ib info] by (auto simp: front_month_def)

lemma place_one_uniform:
  "\<exists>r ls os. \<forall>w. place_one cfg ib item w
      = (r, w\<lparr>printed := printed w @ ls, placed := placed w @ os\<rparr>)"
proof -
  obtain symb data where item: "item = (symb, data)" by (cases item)
  show ?thesis
  proof (cases "find (\<lambda>x. symbol x = symb) (universe cfg)")
    case None
    with item have "\<forall>w. place_one cfg ib item w
        = (Inr (), w\<lparr>printed := printed w @ [], placed := placed w @ []\<rparr>)"
      by (simp add: place_one_def)
    then show ?thesis by blast
  next
    case (Some info)
    from get_front_month_contract_uniform [of ib info] obtain r ls
      where g: "\<And>w. get_front_month_contract ib info w = (r, w\<lparr>printed := printed w @ ls\<rparr>)"
      by blast
    show ?thesis
    proof (cases r)
      case (Inl e)
      with item Some g have "\<forall>w. place_one cfg ib item w
        = (Inl e, w\<lparr>printed := printed w @ ls, placed := placed w @ []\<rparr>)"
        by (simp add: place_one_def)
      then show ?thesis by blast
    next
      case (Inr c)
      show ?thesis
      proof (cases c)
        case None
        with Inr item Some g have "\<forall>w. place_one cfg ib item w
          = (Inr (), w\<lparr>printed := printed w @ (ls @ [WarningNoFrontMonth symb]),
                        placed := placed w @ []\<rparr>)"
          by (simp add: place_one_def print_def)
        then show ?thesis by blast
      next
        case front: (Some front_contract)
        let ?act = "if latest_signal data = 1 then ''BUY'' else ''SELL''"
        let ?order = "\<lparr>action = ?act, totalQuantity = contract_size cfg\<rparr>"
        show ?thesis
        proof (cases "placeOrder_reply ib front_contract ?order")
          case Raises
          with front Inr item Some g have "\<forall>w. place_one cfg ib item w
            = (Inl BrokerException, w\<lparr>printed := printed w @ ls, placed := placed w @ []\<rparr>)"
            by (simp add: place_one_def Let_def)
          then show ?thesis by blast
        next
          case (Returns trade)
          with front Inr item Some g have "\<forall>w. place_one cfg ib item w
            = (Inr (), w\<lparr>printed := printed w @ (ls @
                   [TradePlaced symb ?act (contract_size cfg) (latest_signal data)
                      (lastTradeDateOrContractMonth front_contract)]),
                 placed := placed w @ [(front_contract, ?order)]\<rparr>)"
            by (simp add: place_one_def Let_def print_def)
          then show ?thesis by blast
        qed
      qed
    qed
  qed
qed

lemma place_all_uniform:
  "\<exists>r ls os. \<forall>w. place_all cfg ib items w
      = (r, w\<lparr>printed := printed w @ ls, placed := placed w @ os\<rparr>)"
proof (induction items)
  case Nil
  have "\<forall>w. place_all cfg ib [] w
      = (Inr (), w\<lparr>printed := printed w @ [], placed := placed w @ []\<rparr>)" by simp
  then show ?case by blast
next
  case (Cons item rest)
  from place_one_uniform [of cfg ib item] obtain r1 ls1 os1 where
    one: "\<And>w. place_one cfg ib item w
      = (r1, w\<lparr>printed := printed w @ ls1, placed := placed w @ os1\<rparr>)" by blast
  from Cons.IH obtain r2 ls2 os2 where
    all: "\<And>w. place_all cfg ib rest w
      = (r2, w\<lparr>printed := printed w @ ls2, placed := placed w @ os2\<rparr>)" by blast
  show ?case
  proof (cases r1)
    case (Inl e)
    with one have "\<forall>w. place_all cfg ib (item # rest) w
      = (Inl e, w\<lparr>printed := printed w @ ls1, placed := placed w @ os1\<rparr>)" by simp
    then show ?thesis by blast
  next
    case (Inr u)
    with one all have "\<forall>w. place_all cfg ib (item # rest) w
      = (r2, w\<lparr>printed := printed w @ (ls1 @ ls2), placed := placed w @ (os1 @ os2)\<rparr>)"
      by simp
    then show ?thesis by blast
  qed
qed

lemma connect_ibkr_ok:
  assumes "connect_ibkr ib paper w0 = (Inr u, w1)"
  shows "w1 = print (InfoConnected paper (if paper then 7497 else 7496)) w0"
  using assms by (auto simp: connect_ibkr_def Let_def split: reply.splits if_splits)

text \<open>The run after the connection, by what the first loop stored.\<close>

lemma run_no_data:
  assumes "connect_ibkr ib paper w0 = (Inr u, w1)" "fetch_all cfg ib (universe cfg) [] w1 = ([], w2)"
  shows "run_mlm_strategy cfg ib paper w0 = (Inr None, disconnect (print ErrorNoData w2))"
  using assms by (simp add: run_mlm_strategy_def)

lemma run_gate_closed:
  assumes "connect_ibkr ib paper w0 = (Inr u, w1)" "fetch_all cfg ib (universe cfg) [] w1 = (m, w2)"
    and "m \<noteq> []"
    and "\<not> (day (today ib) = 25 \<and> float_gt (np_mean (map (\<lambda>(symb, data). latest_vol data) m)) (vol_threshold cfg))"
  shows "run_mlm_strategy cfg ib paper w0 =
    (Inr None,
     disconnect (print InfoNoTrades
       (print (InfoVolatilityCheck
                 (float_gt (np_mean (map (\<lambda>(symb, data). latest_vol data) m)) (vol_threshold cfg))
                 (vol_threshold cfg))
          (print (InfoAverageVol (np_mean (map (\<lambda>(symb, data). latest_vol data) m))) w2))))"
  using assms by (auto simp: run_mlm_strategy_def Let_def)

lemma run_gate_open:
  assumes "connect_ibkr ib paper w0 = (Inr u, w1)" "fetch_all cfg ib (universe cfg) [] w1 = (m, w2)"
    and "m \<noteq> []"
    and "day (today ib) = 25"
    and "float_gt (np_mean (map (\<lambda>(symb, data). latest_vol data) m)) (vol_threshold cfg)"
  shows "run_mlm_strategy cfg ib paper w0 =
    (case place_all cfg ib m
       (print InfoPlacingOrders
         (print (InfoVolatilityCheck True (vol_threshold cfg))
           (print (InfoAverageVol (np_mean (map (\<lambda>(symb, data). latest_vol data) m))) w2))) of
       (Inl e, w5) \<Rightarrow> (Inl e, w5)
     | (Inr _, w5) \<Rightarrow> (Inr None, disconnect (sleep 5 w5)))"
  using assms by (simp add: run_mlm_strategy_def Let_def)

subsection \<open>The example market, evaluated\<close>

lemma sqrt_examples:
  "sqrt (1 / 10000) = 1 / 100" "sqrt (1 / 2500) = 1 / 50" "sqrt (9 / 10000) = 3 / 100"
  by (rule real_sqrt_unique; simp add: power2_eq_square)+

lemma ex_indicators:
  "compute_indicators (ex_config us) (map (attach_symbol ''A'') (ex_bars ex_closes_A))
    = [ex_row (attach_symbol ''A'' (ex_bar 3 1.0302)) 0.02 0.01 1.0201 1]"
  "compute_indicators (ex_config us) (map (attach_symbol ''B'') (ex_bars ex_closes_B))
    = [ex_row (attach_symbol ''B'' (ex_bar 3 1.0608)) 0.04 0.02 1.0404 1]"
  "compute_indicators (ex_config us) (map (attach_symbol ''C'') (ex_bars ex_closes_C))
    = [ex_row (attach_symbol ''C'' (ex_bar 3 0.9118)) (- 0.06) 0.03 0.9409 (- 1)]"
  by (simp_all add: compute_indicators_def ex_config_def ex_bars_def attach_symbol_def
      ex_bar_def ex_row_def pct_change_def rolling_def std_def mean_def dropna_def signal_of_def
      bar.defs cont_row.defs ind_row.defs power2_eq_square sqrt_examples ex_day_def
      ex_closes_A_def ex_closes_B_def ex_closes_C_def del: not_None_eq)

lemma ex_instrument_simps [simp]:
  "symbol (ex_instrument s) = s" "exchange (ex_instrument s) = ''CBOT''"
  "currency (ex_instrument s) = ''USD''"
  by (simp_all add: ex_instrument_def)

lemma ex_bars_nonempty [simp]:
  "ex_bars ex_closes_A \<noteq> []" "ex_bars ex_closes_B \<noteq> []" "ex_bars ex_closes_C \<noteq> []"
  by (simp_all add: ex_bars_def ex_closes_A_def ex_closes_B_def ex_closes_C_def)

lemma ex_fetch_one:
  "fetch_one (ex_config us) (ex_market ex_hist listed d) (ex_instrument ''A'') w
     = (Some (ex_entry ''A'' 1.0302 0.02 0.01 1.0201 1), w)"
  "fetch_one (ex_config us) (ex_market ex_hist listed d) (ex_instrument ''B'') w
     = (Some (ex_entry ''B'' 1.0608 0.04 0.02 1.0404 1), w)"
  "fetch_one (ex_config us) (ex_market ex_hist listed d) (ex_instrument ''C'') w
     = (Some (ex_entry ''C'' 0.9118 (- 0.06) 0.03 0.9409 (- 1)), w)"
  "fetch_one (ex_config us) (ex_market ex_hist listed d) (ex_instrument ''D'') w
     = (None, print (ErrorFetchFailed ''D'') w)"
  "fetch_one (ex_config us) (ex_market (\<lambda>s. Raises) listed d) (ex_instrument s) w
     = (None, print (ErrorFetchFailed s) w)"
  by (simp_all add: fetch_one_def get_continuous_data_def ex_market_def
      ex_hist_def ex_indicators ex_entry_def Let_def)

lemma ex_fetch_all:
  "fetch_all (ex_config us) (ex_market ex_hist listed d) ex_universe [] w
     = (ex_basket, print (ErrorFetchFailed ''D'') w)"
  "fetch_all (ex_config us) (ex_market (\<lambda>s. Raises) listed d) ex_universe [] w
     = ([], print (ErrorFetchFailed ''D'') (print (ErrorFetchFailed ''C'')
         (print (ErrorFetchFailed ''B'') (print (ErrorFetchFailed ''A'') w))))"
  by (simp_all add: ex_universe_def ex_fetch_one ex_basket_def)

lemma ex_avg_vol:
  "np_mean (map (\<lambda>(symb, data). latest_vol data) ex_basket) = Some 0.02"
  by (simp add: ex_basket_def ex_entry_def np_mean_def mean_def del: not_None_eq)

lemma ex_place_all:
  "place_all (ex_config ex_universe) (ex_market hist ex_listed d) ex_basket w =
    (Inr (),
     w\<lparr>printed := printed w @
          [TradePlaced ''A'' ''BUY'' 1 1 ''202312'', WarningNoContractDetails ''B'',
           WarningNoFrontMonth ''B'', TradePlaced ''C'' ''SELL'' 1 (- 1) ''202406''],
       placed := placed w @
          [(ex_contract 2 ''202312'', \<lparr>action = ''BUY'', totalQuantity = 1\<rparr>),
           (ex_contract 3 ''202406'', \<lparr>action = ''SELL'', totalQuantity = 1\<rparr>)]\<rparr>)"
  by (simp add: ex_basket_def place_one_def ex_config_def ex_universe_def ex_instrument_def
      get_front_month_contract_def ex_market_def ex_listed_def ex_contract_def ex_entry_def
      print_def Let_def)

lemma ex_connect:
  "connect_ibkr (ex_market hist listed d) True w = (Inr (), print (InfoConnected True 7497) w)"
  by (simp add: connect_ibkr_def ex_market_def)

lemma ex_gate:
  "today (ex_market hist listed d) = \<lparr>year = 2024, month = 1, day = d\<rparr>"
  "vol_threshold (ex_config us) = 0.015" "universe (ex_config us) = us"
  "contract_size (ex_config us) = 1"
  by (simp_all add: ex_market_def ex_config_def)

lemma ex_basket_nonempty [simp]: "ex_basket \<noteq> []"
  by (simp add: ex_basket_def)

text \<open>Three runs of the example: on the 25th with a volatile basket, on the 24th, and
  with no instrument that gives data.\<close>

lemma ex_run_open:
  "run_mlm_strategy (ex_config ex_universe) (ex_market ex_hist ex_listed 25) True world0 =
    (Inr None,
     \<lparr>printed = [InfoConnected True 7497, ErrorFetchFailed ''D'', InfoAverageVol (Some 0.02),
         InfoVolatilityCheck True 0.015, InfoPlacingOrders,
         TradePlaced ''A'' ''BUY'' 1 1 ''202312'', WarningNoContractDetails ''B'',
         WarningNoFrontMonth ''B'', TradePlaced ''C'' ''SELL'' 1 (- 1) ''202406''],
       placed = [(ex_contract 2 ''202312'', \<lparr>action = ''BUY'', totalQuantity = 1\<rparr>),
                 (ex_contract 3 ''202406'', \<lparr>action = ''SELL'', totalQuantity = 1\<rparr>)],
       slept = [5], disconnects = 1\<rparr>)"
  by (simp add: run_mlm_strategy_def ex_connect ex_fetch_all ex_avg_vol ex_gate ex_place_all
      float_gt_def Let_def print_def world0_def disconnect_def sleep_def)

lemma ex_run_closed:
  "run_mlm_strategy (ex_config ex_universe) (ex_market ex_hist ex_listed 24) True world0 =
    (Inr None,
     \<lparr>printed = [InfoConnected True 7497, ErrorFetchFailed ''D'', InfoAverageVol (Some 0.02),
         InfoVolatilityCheck True 0.015, InfoNoTrades],
       placed = [], slept = [], disconnects = 1\<rparr>)"
  by (simp add: run_mlm_strategy_def ex_connect ex_fetch_all ex_avg_vol ex_gate
      float_gt_def Let_def print_def world0_def disconnect_def)

lemma ex_run_no_data:
  "run_mlm_strategy (ex_config ex_universe) (ex_market (\<lambda>s. Raises) ex_listed 25) True world0 =
    (Inr None,
     \<lparr>printed = [InfoConnected True 7497, ErrorFetchFailed ''A'', ErrorFetchFailed ''B'',
         ErrorFetchFailed ''C'', ErrorFetchFailed ''D'', ErrorNoData],
       placed = [], slept = [], disconnects = 1\<rparr>)"
  by (simp add: run_mlm_strategy_def ex_connect ex_fetch_all ex_gate
      Let_def print_def world0_def disconnect_def)

subsection \<open>The session is disconnected\<close>

text \<open>
  C10. Whenever \<^verbatim>\<open>run_mlm_strategy\<close> returns (no exception leaves it), the connection was
  established and the session has been disconnected exactly once: on the early return
  with no data and at the end of a run, with or without orders.
\<close>

theorem session_disconnected_once:
  assumes "run_mlm_strategy cfg ib paper w0 = (Inr res, w)"
  shows "disconnects w = disconnects w0 + 1 \<and>
         connect_reply ib (if paper then 7497 else 7496) = Returns True"
proof -
  obtain c w1 where conn: "connect_ibkr ib paper w0 = (c, w1)" by (cases "connect_ibkr ib paper w0")
  with assms obtain u where c: "c = Inr u"
    by (cases c) (auto simp: run_mlm_strategy_def)
  from conn c have w1: "w1 = print (InfoConnected paper (if paper then 7497 else 7496)) w0"
    using connect_ibkr_ok by blast
  from conn c have reply: "connect_reply ib (if paper then 7497 else 7496) = Returns True"
    by (auto simp: connect_ibkr_def Let_def split: reply.splits if_splits)
  obtain m w2 where f: "fetch_all cfg ib (universe cfg) [] w1 = (m, w2)"
    by (cases "fetch_all cfg ib (universe cfg) [] w1")
  from fetch_all_eq [of cfg ib "universe cfg" "[]" w1] f
  have d2: "disconnects w2 = disconnects w1" by auto
  let ?gate = "day (today ib) = 25 \<and>
    float_gt (np_mean (map (\<lambda>(symb, data). latest_vol data) m)) (vol_threshold cfg)"
  consider "m = []" | "m \<noteq> []" "\<not> ?gate" | "m \<noteq> []" "?gate" by blast
  then have "disconnects w = disconnects w2 + 1"
  proof cases
    case 1
    with run_no_data [OF conn [unfolded c], of cfg w2] f assms show ?thesis by auto
  next
    case 2
    from run_gate_closed [OF conn [unfolded c] f 2] assms show ?thesis by auto
  next
    case 3
    let ?w4 = "print InfoPlacingOrders
         (print (InfoVolatilityCheck True (vol_threshold cfg))
           (print (InfoAverageVol (np_mean (map (\<lambda>(symb, data). latest_vol data) m))) w2))"
    from place_all_uniform [of cfg ib m] obtain r ls os where
      p: "place_all cfg ib m ?w4 = (r, ?w4\<lparr>printed := printed ?w4 @ ls, placed := placed ?w4 @ os\<rparr>)"
      by blast
    from 3 have "day (today ib) = 25"
      "float_gt (np_mean (map (\<lambda>(symb, data). latest_vol data) m)) (vol_threshold cfg)"
      by simp_all
    from run_gate_open [OF conn [unfolded c] f 3(1) this] assms p show ?thesis
      by (cases r) auto
  qed
  with d2 w1 reply show ?thesis by simp
qed

text \<open>The three runs of the example return, one by the early return, one with two orders
  placed and one with none; each disconnects once.\<close>

theorem session_disconnected_once_witness:
  "run_mlm_strategy (ex_config ex_universe) (ex_market (\<lambda>s. Raises) ex_listed 25) True world0
     = (Inr None,
        \<lparr>printed = [InfoConnected True 7497, ErrorFetchFailed ''A'', ErrorFetchFailed ''B'',
           ErrorFetchFailed ''C'', ErrorFetchFailed ''D'', ErrorNoData],
         placed = [], slept = [], disconnects = 1\<rparr>) \<and>
   disconnects \<lparr>printed = [InfoConnected True 7497, ErrorFetchFailed ''A'', ErrorFetchFailed ''B'',
           ErrorFetchFailed ''C'', ErrorFetchFailed ''D'', ErrorNoData],
         placed = [], slept = [], disconnects = 1\<rparr> = disconnects world0 + 1 \<and>
   connect_reply (ex_market (\<lambda>s. Raises) ex_listed 25) (if True then 7497 else 7496)
     = Returns True \<and>
   disconnects (snd (run_mlm_strategy (ex_config ex_universe)
      (ex_market ex_hist ex_listed 25) True world0)) = disconnects world0 + 1 \<and>
   length (placed (snd (run_mlm_strategy (ex_config ex_universe)
      (ex_market ex_hist ex_listed 25) True world0))) = 2 \<and>
   disconnects (snd (run_mlm_strategy (ex_config ex_universe)
      (ex_market ex_hist ex_listed 24) True world0)) = disconnects world0 + 1 \<and>
   placed (snd (run_mlm_strategy (ex_config ex_universe)
      (ex_market ex_hist ex_listed 24) True world0)) = []"
proof -
  note a = session_disconnected_once [OF ex_run_no_data]
  note b = session_disconnected_once [OF ex_run_open]
  note c = session_disconnected_once [OF ex_run_closed]
  from a b c show ?thesis
    by (simp add: ex_run_no_data ex_run_open ex_run_closed)
qed

subsection \<open>The two gates\<close>

lemma fetch_all_fst_world:
  "fst (fetch_all cfg ib us m w) = fst (fetch_all cfg ib us m w')"
  using fetch_all_eq [of cfg ib us m w] fetch_all_eq [of cfg ib us m w'] by auto

lemma np_mean_Nil [simp]: "np_mean [] = None"
  by (simp add: np_mean_def mean_def)

text \<open>A quiet market: one instrument, its close constant.\<close>

lemma ex_quiet_fetch:
  "fetch_all (ex_config [ex_instrument ''ZC''])
     (ex_market (\<lambda>s. Returns (ex_bars [2, 2, 2, 2, 2])) listed d) [ex_instrument ''ZC''] [] w
   = ([(''ZC'', \<lparr>df = [ex_row (ex_frame [2, 2, 2, 2, 2] ! 3) 0 0 2 (- 1),
                         ex_row (ex_frame [2, 2, 2, 2, 2] ! 4) 0 0 2 (- 1)],
                 latest_signal = - 1, latest_vol = Some 0\<rparr>)], w)"
proof -
  let ?ib = "ex_market (\<lambda>s. Returns (ex_bars [2, 2, 2, 2, 2])) listed d"
  let ?info = "ex_instrument ''ZC''"
  have r: "reqHistoricalData ?ib (ContFuture (symbol ?info) (exchange ?info) (currency ?info))
      = Returns (ex_bars [2, 2, 2, 2, 2])" by (simp add: ex_market_def)
  have ne: "ex_bars [2, 2, 2, 2, 2] \<noteq> []" by (simp add: ex_bars_def)
  have ci: "compute_indicators (ex_config [?info]) (map (attach_symbol (symbol ?info))
        (ex_bars [2, 2, 2, 2, 2]))
      = [ex_row (ex_frame [2, 2, 2, 2, 2] ! 3) 0 0 2 (- 1),
         ex_row (ex_frame [2, 2, 2, 2, 2] ! 4) 0 0 2 (- 1)]"
    using ex_frame_eval(2) [of "[?info]"] by (simp add: ex_frame_def)
  from fetch_one_cases(4) [OF r ne ci, of w] show ?thesis by simp
qed

lemma ex_run_quiet:
  "run_mlm_strategy (ex_config [ex_instrument ''ZC''])
     (ex_market (\<lambda>s. Returns (ex_bars [2, 2, 2, 2, 2])) ex_listed 25) True world0 =
    (Inr None,
     \<lparr>printed = [InfoConnected True 7497, InfoAverageVol (Some 0),
         InfoVolatilityCheck False 0.015, InfoNoTrades],
       placed = [], slept = [], disconnects = 1\<rparr>)"
  by (simp add: run_mlm_strategy_def ex_connect ex_quiet_fetch ex_gate np_mean_def mean_def
      float_gt_def Let_def print_def world0_def disconnect_def del: fetch_all.simps)

text \<open>
  C1, amended: once the session is connected, orders are placed only when the day of the
  month of \<^verbatim>\<open>datetime.today()\<close> is 25 and the average volatility is strictly greater
  than the threshold. For every other combination no order is placed, the run prints
  that there are no trades (or that there is no data at all), disconnects once and
  returns \<^verbatim>\<open>None\<close>. When both gates hold the submission phase is entered.
\<close>

theorem rebalance_gate:
  assumes run: "run_mlm_strategy cfg ib paper w0 = (res, w)"
    and conn: "connect_reply ib (if paper then 7497 else 7496) = Returns True"
  shows "let basket = fst (fetch_all cfg ib (universe cfg) [] w0);
             avg_vol = np_mean (map (\<lambda>(symb, data). latest_vol data) basket);
             both = (day (today ib) = 25 \<and> float_gt avg_vol (vol_threshold cfg))
         in (placed w \<noteq> placed w0 \<longrightarrow> both) \<and>
            (\<not> both \<longrightarrow>
               placed w = placed w0 \<and> res = Inr None \<and> disconnects w = disconnects w0 + 1 \<and>
               last (printed w) = (if basket = [] then ErrorNoData else InfoNoTrades)) \<and>
            (both \<longrightarrow> InfoPlacingOrders \<in> set (printed w))"
proof -
  let ?w1 = "print (InfoConnected paper (if paper then 7497 else 7496)) w0"
  have c: "connect_ibkr ib paper w0 = (Inr (), ?w1)"
    using conn by (simp add: connect_ibkr_def Let_def)
  obtain m w2 where f: "fetch_all cfg ib (universe cfg) [] ?w1 = (m, w2)"
    by (cases "fetch_all cfg ib (universe cfg) [] ?w1")
  have m: "fst (fetch_all cfg ib (universe cfg) [] w0) = m"
    using fetch_all_fst_world [of cfg ib "universe cfg" "[]" w0 ?w1] f by simp
  from fetch_all_eq [of cfg ib "universe cfg" "[]" ?w1] f
  have w2: "placed w2 = placed w0" "disconnects w2 = disconnects w0" by auto
  let ?avg = "np_mean (map (\<lambda>(symb, data). latest_vol data) m)"
  let ?both = "day (today ib) = 25 \<and> float_gt ?avg (vol_threshold cfg)"
  consider "m = []" | "m \<noteq> []" "\<not> ?both" | "m \<noteq> []" "?both" by blast
  then have "(placed w \<noteq> placed w0 \<longrightarrow> ?both) \<and>
            (\<not> ?both \<longrightarrow>
               placed w = placed w0 \<and> res = Inr None \<and> disconnects w = disconnects w0 + 1 \<and>
               last (printed w) = (if m = [] then ErrorNoData else InfoNoTrades)) \<and>
            (?both \<longrightarrow> InfoPlacingOrders \<in> set (printed w))"
  proof cases
    case 1
    then have nb: "\<not> ?both" by (simp add: float_gt_def)
    from run_no_data [OF c, of cfg w2] f 1 run
    have "res = Inr None" "w = disconnect (print ErrorNoData w2)" by auto
    with nb 1 w2 show ?thesis by (simp add: float_gt_def)
  next
    case 2
    from run_gate_closed [OF c f 2] run
    have "res = Inr None" "w = disconnect (print InfoNoTrades
       (print (InfoVolatilityCheck (float_gt ?avg (vol_threshold cfg)) (vol_threshold cfg))
          (print (InfoAverageVol ?avg) w2)))" by auto
    with 2 w2 show ?thesis by auto
  next
    case 3
    let ?w4 = "print InfoPlacingOrders
         (print (InfoVolatilityCheck True (vol_threshold cfg))
           (print (InfoAverageVol ?avg) w2))"
    from place_all_uniform [of cfg ib m] obtain r ls os where
      p: "place_all cfg ib m ?w4 = (r, ?w4\<lparr>printed := printed ?w4 @ ls, placed := placed ?w4 @ os\<rparr>)"
      by blast
    from 3 have g: "day (today ib) = 25" "float_gt ?avg (vol_threshold cfg)" by simp_all
    from run_gate_open [OF c f 3(1) g] run p
    have "InfoPlacingOrders \<in> set (printed w)" by (cases r) auto
    with 3 show ?thesis by blast
  qed
  then show ?thesis unfolding Let_def m .
qed

lemma world0_fields [simp]:
  "printed world0 = []" "placed world0 = []" "slept world0 = []" "disconnects world0 = 0"
  by (simp_all add: world0_def)

lemma ex_connect_reply: "connect_reply (ex_market hist listed d) port = Returns True"
  by (simp add: ex_market_def)

text \<open>The 24th with a volatile basket, the 25th with a quiet one, and the 25th with a
  volatile basket.\<close>

theorem rebalance_gate_witness:
  "connect_reply (ex_market ex_hist ex_listed 24) (if True then 7497 else 7496) = Returns True \<and>
   day (today (ex_market ex_hist ex_listed 24)) \<noteq> 25 \<and>
   placed (snd (run_mlm_strategy (ex_config ex_universe) (ex_market ex_hist ex_listed 24)
     True world0)) = placed world0 \<and>
   fst (run_mlm_strategy (ex_config ex_universe) (ex_market ex_hist ex_listed 24)
     True world0) = Inr None \<and>
   disconnects (snd (run_mlm_strategy (ex_config ex_universe) (ex_market ex_hist ex_listed 24)
     True world0)) = disconnects world0 + 1 \<and>
   last (printed (snd (run_mlm_strategy (ex_config ex_universe) (ex_market ex_hist ex_listed 24)
     True world0))) = InfoNoTrades \<and>
   day (today (ex_market (\<lambda>s. Returns (ex_bars [2, 2, 2, 2, 2])) ex_listed 25)) = 25 \<and>
   \<not> float_gt (np_mean (map (\<lambda>(symb, data). latest_vol data)
        (fst (fetch_all (ex_config [ex_instrument ''ZC''])
           (ex_market (\<lambda>s. Returns (ex_bars [2, 2, 2, 2, 2])) ex_listed 25)
           (universe (ex_config [ex_instrument ''ZC''])) [] world0))))
      (vol_threshold (ex_config [ex_instrument ''ZC''])) \<and>
   placed (snd (run_mlm_strategy (ex_config [ex_instrument ''ZC''])
     (ex_market (\<lambda>s. Returns (ex_bars [2, 2, 2, 2, 2])) ex_listed 25) True world0))
     = placed world0 \<and>
   last (printed (snd (run_mlm_strategy (ex_config [ex_instrument ''ZC''])
     (ex_market (\<lambda>s. Returns (ex_bars [2, 2, 2, 2, 2])) ex_listed 25) True world0)))
     = InfoNoTrades \<and>
   day (today (ex_market ex_hist ex_listed 25)) = 25 \<and>
   float_gt (np_mean (map (\<lambda>(symb, data). latest_vol data)
        (fst (fetch_all (ex_config ex_universe) (ex_market ex_hist ex_listed 25)
           (universe (ex_config ex_universe)) [] world0))))
      (vol_threshold (ex_config ex_universe)) \<and>
   InfoPlacingOrders \<in> set (printed (snd (run_mlm_strategy (ex_config ex_universe)
     (ex_market ex_hist ex_listed 25) True world0)))"
proof -
  note a = rebalance_gate [OF ex_run_closed ex_connect_reply, unfolded Let_def]
  note b = rebalance_gate [OF ex_run_quiet ex_connect_reply, unfolded Let_def]
  note c = rebalance_gate [OF ex_run_open ex_connect_reply, unfolded Let_def]
  have q: "float_gt (np_mean (map (\<lambda>(symb, data). latest_vol data)
        (fst (fetch_all (ex_config [ex_instrument ''ZC''])
           (ex_market (\<lambda>s. Returns (ex_bars [2, 2, 2, 2, 2])) ex_listed 25)
           (universe (ex_config [ex_instrument ''ZC''])) [] world0))))
      (vol_threshold (ex_config [ex_instrument ''ZC''])) = False"
    by (simp add: ex_gate ex_quiet_fetch np_mean_def mean_def float_gt_def del: fetch_all.simps)
  have v: "float_gt (np_mean (map (\<lambda>(symb, data). latest_vol data)
        (fst (fetch_all (ex_config ex_universe) (ex_market ex_hist ex_listed d)
           (universe (ex_config ex_universe)) [] world0))))
      (vol_threshold (ex_config ex_universe)) = True" for d
    by (simp add: ex_gate ex_fetch_all ex_avg_vol float_gt_def)
  from a have a': "placed (snd (run_mlm_strategy (ex_config ex_universe)
        (ex_market ex_hist ex_listed 24) True world0)) = placed world0 \<and>
      last (printed (snd (run_mlm_strategy (ex_config ex_universe)
        (ex_market ex_hist ex_listed 24) True world0))) = InfoNoTrades"
    by (simp add: ex_gate v ex_run_closed ex_fetch_all)
  from b have b': "placed (snd (run_mlm_strategy (ex_config [ex_instrument ''ZC''])
       (ex_market (\<lambda>s. Returns (ex_bars [2, 2, 2, 2, 2])) ex_listed 25) True world0))
       = placed world0 \<and>
     last (printed (snd (run_mlm_strategy (ex_config [ex_instrument ''ZC''])
       (ex_market (\<lambda>s. Returns (ex_bars [2, 2, 2, 2, 2])) ex_listed 25) True world0)))
       = InfoNoTrades"
    unfolding q by (simp add: ex_run_quiet ex_gate)
  have d: "day (today (ex_market ex_hist ex_listed 24)) \<noteq> 25"
    "day (today (ex_market (\<lambda>s. Returns (ex_bars [2, 2, 2, 2, 2])) ex_listed 25)) = 25"
    "day (today (ex_market ex_hist ex_listed 25)) = 25"
    by (simp_all add: ex_gate)
  have r: "fst (run_mlm_strategy (ex_config ex_universe) (ex_market ex_hist ex_listed 24)
       True world0) = Inr None"
    "disconnects (snd (run_mlm_strategy (ex_config ex_universe) (ex_market ex_hist ex_listed 24)
       True world0)) = disconnects world0 + 1"
    by (simp_all add: ex_run_closed)
  from q have q': "\<not> float_gt (np_mean (map (\<lambda>(symb, data). latest_vol data)
        (fst (fetch_all (ex_config [ex_instrument ''ZC''])
           (ex_market (\<lambda>s. Returns (ex_bars [2, 2, 2, 2, 2])) ex_listed 25)
           (universe (ex_config [ex_instrument ''ZC''])) [] world0))))
      (vol_threshold (ex_config [ex_instrument ''ZC'']))" by blast
  from v [of 25] have v': "float_gt (np_mean (map (\<lambda>(symb, data). latest_vol data)
        (fst (fetch_all (ex_config ex_universe) (ex_market ex_hist ex_listed 25)
           (universe (ex_config ex_universe)) [] world0))))
      (vol_threshold (ex_config ex_universe))" by blast
  from c d(3) v' have c': "InfoPlacingOrders \<in> set (printed (snd (run_mlm_strategy
      (ex_config ex_universe) (ex_market ex_hist ex_listed 25) True world0)))"
    by (simp add: ex_run_open)
  from a' b' c' q' v' d r ex_connect_reply [of ex_hist ex_listed 24 "if True then 7497 else 7496"]
  show ?thesis by blast
qed

subsection \<open>The volatility of the basket\<close>

text \<open>The entry of an instrument has a volatility: the one of its last derived row.\<close>

lemma snapshot_vol:
  assumes "snapshot cfg ib info = Some e"
  shows "\<exists>v. latest_vol e = Some v"
proof -
  from assms have f: "fst (fetch_one cfg ib info world0) = Some e" by (simp add: snapshot_def)
  show ?thesis
  proof (cases "reqHistoricalData ib (ContFuture (symbol info) (exchange info) (currency info))")
    case Raises
    from fetch_one_cases(1) [OF Raises, of cfg world0] f show ?thesis by simp
  next
    case (Returns bars)
    let ?ind = "compute_indicators cfg (map (attach_symbol (symbol info)) bars)"
    show ?thesis
    proof (cases "bars = []")
      case True
      from fetch_one_cases(2) [OF Returns [unfolded True], of cfg world0] f show ?thesis by simp
    next
      case False
      show ?thesis
      proof (cases "?ind = []")
        case True
        from fetch_one_cases(3) [OF Returns False True, of world0] f show ?thesis by simp
      next
        case ne: False
        from fetch_one_cases(4) [OF Returns False refl ne, of world0] f
        have e: "latest_vol e = rolling_std_20 (last ?ind)" by auto
        from ne have "last ?ind \<in> set ?ind" by simp
        from compute_indicators_row [OF this] e show ?thesis by auto
      qed
    qed
  qed
qed

lemma np_mean_Some:
  "vols \<noteq> [] \<Longrightarrow> np_mean (map Some vols) = Some (sum_list vols / real (length vols))"
  by (simp add: np_mean_def mean_def list_all_iff comp_def)

lemma float_gt_Some [simp]: "float_gt (Some x) t = (t < x)"
  by (simp add: float_gt_def)

text \<open>The symbols of the script's own universe are distinct.\<close>

lemma mlm_universe_distinct: "distinct (map symbol (universe mlm_config))"
  by (simp add: mlm_config_def mlm_universe_def)

text \<open>The volatilities in the map are those of the instruments that gave a snapshot.\<close>

lemma basket_vols:
  assumes dist: "distinct (map symbol us)"
  shows "\<exists>vols.
     map (\<lambda>info. Option.bind (snapshot cfg ib info) latest_vol)
        (filter (\<lambda>info. snapshot cfg ib info \<noteq> None) us) = map Some vols \<and>
     map (\<lambda>(symb, data). latest_vol data) (fst (fetch_all cfg ib us [] w)) = map Some vols \<and>
     length (fst (fetch_all cfg ib us [] w))
       = length (filter (\<lambda>info. snapshot cfg ib info \<noteq> None) us)"
proof -
  let ?c = "filter (\<lambda>info. snapshot cfg ib info \<noteq> None) us"
  let ?vols = "map (\<lambda>info. the (latest_vol (the (snapshot cfg ib info)))) ?c"
  from fetch_all_eq [of cfg ib us "[]" w] obtain ls where
    "fetch_all cfg ib us [] w =
      (foldl (\<lambda>m info. case snapshot cfg ib info of None \<Rightarrow> m
                        | Some e \<Rightarrow> AList.update (symbol info) e m) [] us,
       w\<lparr>printed := printed w @ ls\<rparr>)" by blast
  moreover have "fst ` set ([] :: symbol_data_map) \<inter> symbol ` set us = {}" by simp
  note basket_distinct [OF dist this, of cfg ib]
  ultimately
  have m: "fst (fetch_all cfg ib us [] w) = map (\<lambda>info. (symbol info, the (snapshot cfg ib info))) ?c"
    by simp
  have v: "Option.bind (snapshot cfg ib info) latest_vol
      = Some (the (latest_vol (the (snapshot cfg ib info))))"
    "latest_vol (the (snapshot cfg ib info)) = Some (the (latest_vol (the (snapshot cfg ib info))))"
    if "info \<in> set ?c" for info
  proof -
    from that obtain e where e: "snapshot cfg ib info = Some e" by auto
    from snapshot_vol [OF e] obtain x where "latest_vol e = Some x" ..
    then have "the (latest_vol e) = x" by simp
    with e \<open>latest_vol e = Some x\<close>
    show "Option.bind (snapshot cfg ib info) latest_vol
      = Some (the (latest_vol (the (snapshot cfg ib info))))"
      "latest_vol (the (snapshot cfg ib info)) = Some (the (latest_vol (the (snapshot cfg ib info))))"
      by (simp_all only: option.sel bind.bind_lunit)
  qed
  have a: "map (\<lambda>info. Option.bind (snapshot cfg ib info) latest_vol) ?c = map Some ?vols"
    unfolding map_map comp_def by (rule map_cong [OF refl]) (rule v(1))
  have b: "map (\<lambda>(symb, data). latest_vol data) (fst (fetch_all cfg ib us [] w)) = map Some ?vols"
    unfolding m map_map comp_def prod.case by (rule map_cong [OF refl]) (rule v(2))
  from a b m show ?thesis by (intro exI [of _ ?vols]) simp
qed

text \<open>
  C4. With one symbol an instrument, the average volatility that the run prints and
  compares is the sum of the latest volatilities of the instruments that gave a snapshot
  divided by their number: an instrument without data is in neither. When no instrument
  gave a snapshot the run stops with the line of the no-data error as its last line;
  when the gate is closed its last line is the no-trades line.
\<close>

theorem basket_volatility:
  assumes run: "run_mlm_strategy cfg ib paper w0 = (res, w)"
    and conn: "connect_reply ib (if paper then 7497 else 7496) = Returns True"
    and dist: "distinct (map symbol (universe cfg))"
  shows "let contributing = filter (\<lambda>info. snapshot cfg ib info \<noteq> None) (universe cfg) in
    (contributing = [] \<longrightarrow>
       res = Inr None \<and> placed w = placed w0 \<and> last (printed w) = ErrorNoData) \<and>
    (contributing \<noteq> [] \<longrightarrow>
       (\<exists>vols.
          map (\<lambda>info. Option.bind (snapshot cfg ib info) latest_vol) contributing = map Some vols \<and>
          InfoAverageVol (Some (sum_list vols / real (length vols))) \<in> set (printed w) \<and>
          InfoVolatilityCheck (vol_threshold cfg < sum_list vols / real (length vols))
             (vol_threshold cfg) \<in> set (printed w) \<and>
          (\<not> (day (today ib) = 25 \<and> vol_threshold cfg < sum_list vols / real (length vols))
             \<longrightarrow> res = Inr None \<and> placed w = placed w0 \<and> last (printed w) = InfoNoTrades)))"
proof -
  let ?c = "filter (\<lambda>info. snapshot cfg ib info \<noteq> None) (universe cfg)"
  let ?w1 = "print (InfoConnected paper (if paper then 7497 else 7496)) w0"
  have c: "connect_ibkr ib paper w0 = (Inr (), ?w1)"
    using conn by (simp add: connect_ibkr_def Let_def)
  obtain m w2 where f: "fetch_all cfg ib (universe cfg) [] ?w1 = (m, w2)"
    by (cases "fetch_all cfg ib (universe cfg) [] ?w1")
  from fetch_all_eq [of cfg ib "universe cfg" "[]" ?w1] f
  have w2: "placed w2 = placed w0" by auto
  from basket_vols [OF dist, of cfg ib ?w1] f obtain vols where
    vols: "map (\<lambda>info. Option.bind (snapshot cfg ib info) latest_vol) ?c = map Some vols"
    and mv: "map (\<lambda>(symb, data). latest_vol data) m = map Some vols"
    and len: "length m = length ?c" by auto
  have empty: "res = Inr None \<and> placed w = placed w0 \<and> last (printed w) = ErrorNoData"
    if "?c = []"
  proof -
    from that len have "m = []" by simp
    with run_no_data [OF c, of cfg w2] f run
    have "res = Inr None" "w = disconnect (print ErrorNoData w2)" by auto
    with w2 show ?thesis by simp
  qed
  have full: "InfoAverageVol (Some (sum_list vols / real (length vols))) \<in> set (printed w) \<and>
          InfoVolatilityCheck (vol_threshold cfg < sum_list vols / real (length vols))
             (vol_threshold cfg) \<in> set (printed w) \<and>
          (\<not> (day (today ib) = 25 \<and> vol_threshold cfg < sum_list vols / real (length vols))
             \<longrightarrow> res = Inr None \<and> placed w = placed w0 \<and> last (printed w) = InfoNoTrades)"
    if ne: "?c \<noteq> []"
  proof -
    from ne len have m: "m \<noteq> []" by auto
    with mv have "vols \<noteq> []" by auto
    with mv have avg: "np_mean (map (\<lambda>(symb, data). latest_vol data) m)
        = Some (sum_list vols / real (length vols))"
      by (simp add: np_mean_Some)
    let ?avg = "sum_list vols / real (length vols)"
    let ?both = "day (today ib) = 25 \<and> vol_threshold cfg < ?avg"
    let ?w3 = "print (InfoVolatilityCheck (vol_threshold cfg < ?avg) (vol_threshold cfg))
          (print (InfoAverageVol (Some ?avg)) w2)"
    show ?thesis
    proof (cases ?both)
      case False
      then have g: "\<not> (day (today ib) = 25 \<and>
          float_gt (np_mean (map (\<lambda>(symb, data). latest_vol data) m)) (vol_threshold cfg))"
        by (simp add: avg)
      from run_gate_closed [OF c f m g] run
      have "res = Inr None" "w = disconnect (print InfoNoTrades ?w3)"
        by (auto simp: avg)
      with w2 False show ?thesis by simp
    next
      case True
      then have g: "day (today ib) = 25"
        "float_gt (np_mean (map (\<lambda>(symb, data). latest_vol data) m)) (vol_threshold cfg)"
        by (simp_all add: avg)
      let ?w4 = "print InfoPlacingOrders
         (print (InfoVolatilityCheck True (vol_threshold cfg))
           (print (InfoAverageVol (np_mean (map (\<lambda>(symb, data). latest_vol data) m))) w2))"
      from place_all_uniform [of cfg ib m] obtain r ls os where
        p: "place_all cfg ib m ?w4
          = (r, ?w4\<lparr>printed := printed ?w4 @ ls, placed := placed ?w4 @ os\<rparr>)"
        by blast
      from run_gate_open [OF c f m g] run p
      have "set (printed ?w4) \<subseteq> set (printed w)" by (cases r) auto
      with True show ?thesis by (auto simp: avg)
    qed
  qed
  from empty full vols show ?thesis unfolding Let_def by blast
qed

lemma ex_snapshot:
  "snapshot (ex_config us) (ex_market ex_hist listed d) (ex_instrument ''A'')
     = Some (ex_entry ''A'' 1.0302 0.02 0.01 1.0201 1)"
  "snapshot (ex_config us) (ex_market ex_hist listed d) (ex_instrument ''B'')
     = Some (ex_entry ''B'' 1.0608 0.04 0.02 1.0404 1)"
  "snapshot (ex_config us) (ex_market ex_hist listed d) (ex_instrument ''C'')
     = Some (ex_entry ''C'' 0.9118 (- 0.06) 0.03 0.9409 (- 1))"
  "snapshot (ex_config us) (ex_market ex_hist listed d) (ex_instrument ''D'') = None"
  "snapshot (ex_config us) (ex_market (\<lambda>s. Raises) listed d) (ex_instrument s) = None"
  by (simp_all add: snapshot_def ex_fetch_one)

lemma ex_universe_distinct: "distinct (map symbol (universe (ex_config ex_universe)))"
  by (simp add: ex_gate ex_universe_def)

text \<open>The example of the specification: A, B and C with volatilities 0.01, 0.02 and 0.03,
  and D without data, give the average 0.02.\<close>

theorem basket_volatility_witness:
  "connect_reply (ex_market ex_hist ex_listed 25) (if True then 7497 else 7496) = Returns True \<and>
   distinct (map symbol (universe (ex_config ex_universe))) \<and>
   filter (\<lambda>info. snapshot (ex_config ex_universe) (ex_market ex_hist ex_listed 25) info \<noteq> None)
     (universe (ex_config ex_universe))
     = [ex_instrument ''A'', ex_instrument ''B'', ex_instrument ''C''] \<and>
   map (\<lambda>info. Option.bind (snapshot (ex_config ex_universe) (ex_market ex_hist ex_listed 25) info)
          latest_vol) [ex_instrument ''A'', ex_instrument ''B'', ex_instrument ''C'']
     = map Some [0.01, 0.02, 0.03] \<and>
   sum_list [0.01, 0.02, 0.03] / real (length [0.01, 0.02, 0.03 :: real]) = (0.02 :: real) \<and>
   InfoAverageVol (Some 0.02) \<in> set (printed (snd (run_mlm_strategy (ex_config ex_universe)
     (ex_market ex_hist ex_listed 25) True world0))) \<and>
   filter (\<lambda>info. snapshot (ex_config ex_universe) (ex_market (\<lambda>s. Raises) ex_listed 25) info
       \<noteq> None) (universe (ex_config ex_universe)) = [] \<and>
   fst (run_mlm_strategy (ex_config ex_universe) (ex_market (\<lambda>s. Raises) ex_listed 25)
     True world0) = Inr None \<and>
   last (printed (snd (run_mlm_strategy (ex_config ex_universe)
     (ex_market (\<lambda>s. Raises) ex_listed 25) True world0))) = ErrorNoData \<and>
   last (printed (snd (run_mlm_strategy (ex_config ex_universe)
     (ex_market ex_hist ex_listed 24) True world0))) = InfoNoTrades"
proof -
  let ?cfg = "ex_config ex_universe"
  have c1: "filter (\<lambda>info. snapshot ?cfg (ex_market ex_hist ex_listed d) info \<noteq> None)
     (universe ?cfg) = [ex_instrument ''A'', ex_instrument ''B'', ex_instrument ''C'']" for d
    by (simp add: ex_gate ex_universe_def ex_snapshot)
  have c2: "filter (\<lambda>info. snapshot ?cfg (ex_market (\<lambda>s. Raises) ex_listed 25) info \<noteq> None)
     (universe ?cfg) = []"
    by (simp add: ex_gate ex_universe_def ex_snapshot)
  have v: "map (\<lambda>info. Option.bind (snapshot ?cfg (ex_market ex_hist ex_listed d) info) latest_vol)
       [ex_instrument ''A'', ex_instrument ''B'', ex_instrument ''C'']
     = map Some [0.01, 0.02, 0.03]" for d
    by (simp add: ex_snapshot ex_entry_def)
  have s: "sum_list [0.01, 0.02, 0.03] / real (length [0.01, 0.02, 0.03 :: real]) = (0.02 :: real)"
    by simp
  note open_run = basket_volatility [of ?cfg "ex_market ex_hist ex_listed 25" True world0,
      OF surjective_pairing ex_connect_reply ex_universe_distinct, unfolded Let_def c1]
  note closed_run = basket_volatility [of ?cfg "ex_market ex_hist ex_listed 24" True world0,
      OF surjective_pairing ex_connect_reply ex_universe_distinct, unfolded Let_def c1]
  note no_data = basket_volatility [of ?cfg "ex_market (\<lambda>s. Raises) ex_listed 25" True world0,
      OF surjective_pairing ex_connect_reply ex_universe_distinct, unfolded Let_def c2]
  have ne: "[ex_instrument ''A'', ex_instrument ''B'', ex_instrument ''C''] \<noteq> []" by simp
  from open_run ne obtain vols where
    m: "map (\<lambda>info. Option.bind (snapshot ?cfg (ex_market ex_hist ex_listed 25) info) latest_vol)
       [ex_instrument ''A'', ex_instrument ''B'', ex_instrument ''C''] = map Some vols"
    and p: "InfoAverageVol (Some (sum_list vols / real (length vols)))
       \<in> set (printed (snd (run_mlm_strategy ?cfg (ex_market ex_hist ex_listed 25) True world0)))"
    by blast
  from m v [of 25] have "map Some vols = map Some [0.01, 0.02, 0.03 :: real]" by simp
  then have "vols = [0.01, 0.02, 0.03]" by (simp only: inj_map_eq_map inj_Some)
  with p s have a: "InfoAverageVol (Some 0.02)
       \<in> set (printed (snd (run_mlm_strategy ?cfg (ex_market ex_hist ex_listed 25) True world0)))"
    by (simp only:)
  from no_data have b: "fst (run_mlm_strategy ?cfg (ex_market (\<lambda>s. Raises) ex_listed 25)
       True world0) = Inr None \<and>
     last (printed (snd (run_mlm_strategy ?cfg
       (ex_market (\<lambda>s. Raises) ex_listed 25) True world0))) = ErrorNoData"
    by blast
  have "day (today (ex_market ex_hist ex_listed 24)) \<noteq> 25" by (simp add: ex_gate)
  with closed_run ne have c: "last (printed (snd (run_mlm_strategy ?cfg
       (ex_market ex_hist ex_listed 24) True world0))) = InfoNoTrades"
    by blast
  from a b c c1 [of 25] c2 v [of 25] s ex_universe_distinct
    ex_connect_reply [of ex_hist ex_listed 25 "if True then 7497 else 7496"]
  show ?thesis by blast
qed

subsection \<open>Too little history, and the dates\<close>

text \<open>A derived row has enough rows before it, so a short series has none.\<close>

lemma compute_indicators_row_index:
  assumes "r \<in> set (compute_indicators cfg frame)"
  shows "\<exists>i<length frame. max (vol_window cfg) (ma_window cfg - 1) \<le> i"
proof -
  from compute_indicators_row [OF assms] obtain i where i: "i < length frame"
    and sd: "rolling_std_20 r = rolling (vol_window cfg) std (pct_change (map close frame)) ! i"
    and ma: "MA200 r = rolling (ma_window cfg) mean (map (\<lambda>r. Some (close r)) frame) ! i"
    and d: "rolling_std_20 r \<noteq> None" "MA200 r \<noteq> None"
    by blast
  from i have i': "i < length (map close frame)" by simp
  from d(1) sd have "vol_window cfg \<le> i" using rolling_std_defined [OF i'] by simp
  moreover from d(2) ma have "ma_window cfg \<le> i + 1"
    using rolling_mean_closes [OF i, of "ma_window cfg"] by (auto split: if_splits)
  ultimately have "max (vol_window cfg) (ma_window cfg - 1) \<le> i" by simp
  with i show ?thesis by blast
qed

lemma compute_indicators_short:
  assumes "length frame \<le> max (vol_window cfg) (ma_window cfg - 1)"
  shows "compute_indicators cfg frame = []"
proof (rule ccontr)
  assume "compute_indicators cfg frame \<noteq> []"
  then obtain r where "r \<in> set (compute_indicators cfg frame)"
    by (cases "compute_indicators cfg frame") auto
  from compute_indicators_row_index [OF this] assms show False by auto
qed

text \<open>The computation does not read the dates: changing them changes the date column of
  the result and nothing else.\<close>

lemma compute_indicators_dates:
  "compute_indicators cfg (map (date_update f) frame)
     = map (date_update f) (compute_indicators cfg frame)"
proof -
  have c: "map close (map (date_update f) frame) = map close frame"
    "map (\<lambda>r. Some (close r)) (map (date_update f) frame) = map (\<lambda>r. Some (close r)) frame"
    by simp_all
  show ?thesis
    unfolding compute_indicators_def Let_def dropna_def c
    by (simp add: filter_map comp_def cont_row.defs ind_row.defs bar.defs)
qed

text \<open>
  C7, amended: the computation returns the empty sequence, a result like any other, for
  a series with too little history and for the empty series, and it cannot fail: its
  result does not depend on the dates, whatever they are. The caller tells the cases
  apart: an instrument whose request raises or returns no bars is skipped with the line
  of the fetch, one whose derived sequence is empty with the not-enough-data warning, and
  one with derived rows gets its entry and prints nothing.
\<close>

theorem indicators_never_fail:
  "(length frame \<le> max (vol_window cfg) (ma_window cfg - 1)
      \<longrightarrow> compute_indicators cfg frame = []) \<and>
   compute_indicators cfg [] = [] \<and>
   compute_indicators cfg (map (date_update f) frame)
     = map (date_update f) (compute_indicators cfg frame) \<and>
   (reqHistoricalData ib (ContFuture (symbol info) (exchange info) (currency info)) = Raises
      \<longrightarrow> fetch_one cfg ib info w = (None, print (ErrorFetchFailed (symbol info)) w)) \<and>
   (reqHistoricalData ib (ContFuture (symbol info) (exchange info) (currency info)) = Returns []
      \<longrightarrow> fetch_one cfg ib info w = (None, print (WarningNoBars (symbol info)) w)) \<and>
   (reqHistoricalData ib (ContFuture (symbol info) (exchange info) (currency info)) = Returns bars \<and>
    bars \<noteq> [] \<and> compute_indicators cfg (map (attach_symbol (symbol info)) bars) = []
      \<longrightarrow> fetch_one cfg ib info w = (None, print (WarningNotEnoughData (symbol info)) w)) \<and>
   (reqHistoricalData ib (ContFuture (symbol info) (exchange info) (currency info)) = Returns bars \<and>
    bars \<noteq> [] \<and> compute_indicators cfg (map (attach_symbol (symbol info)) bars) \<noteq> []
      \<longrightarrow> fst (fetch_one cfg ib info w) \<noteq> None \<and> snd (fetch_one cfg ib info w) = w)"
proof -
  have "compute_indicators cfg [] = []"
    by (rule compute_indicators_short) simp
  moreover have "fst (fetch_one cfg ib info w) \<noteq> None \<and> snd (fetch_one cfg ib info w) = w"
    if "reqHistoricalData ib (ContFuture (symbol info) (exchange info) (currency info)) = Returns bars"
      "bars \<noteq> []" "compute_indicators cfg (map (attach_symbol (symbol info)) bars) \<noteq> []"
    using fetch_one_cases(4) [OF that(1,2) refl that(3), of w] by simp
  ultimately show ?thesis
    using compute_indicators_short [of frame cfg] compute_indicators_dates [of cfg f frame]
      fetch_one_cases(1-3) [of ib info]
    by blast
qed

theorem indicators_never_fail_witness:
  "length (ex_frame [1, 1, 2]) \<le> max (vol_window (ex_config [])) (ma_window (ex_config []) - 1) \<and>
   compute_indicators (ex_config []) (ex_frame [1, 1, 2]) = [] \<and>
   compute_indicators (ex_config []) (map (date_update (\<lambda>d. ex_day 0)) (ex_frame [1, 1, 2, 6]))
     = map (date_update (\<lambda>d. ex_day 0)) (compute_indicators (ex_config []) (ex_frame [1, 1, 2, 6])) \<and>
   compute_indicators (ex_config []) (ex_frame [1, 1, 2, 6]) \<noteq> [] \<and>
   reqHistoricalData (ex_market (\<lambda>s. Raises) ex_listed 25)
     (ContFuture (symbol (ex_instrument ''ZC'')) (exchange (ex_instrument ''ZC''))
        (currency (ex_instrument ''ZC''))) = Raises \<and>
   fetch_one (ex_config []) (ex_market (\<lambda>s. Raises) ex_listed 25) (ex_instrument ''ZC'') world0
     = (None, print (ErrorFetchFailed (symbol (ex_instrument ''ZC''))) world0) \<and>
   reqHistoricalData (ex_market (\<lambda>s. Returns []) ex_listed 25)
     (ContFuture (symbol (ex_instrument ''ZC'')) (exchange (ex_instrument ''ZC''))
        (currency (ex_instrument ''ZC''))) = Returns [] \<and>
   fetch_one (ex_config []) (ex_market (\<lambda>s. Returns []) ex_listed 25) (ex_instrument ''ZC'') world0
     = (None, print (WarningNoBars (symbol (ex_instrument ''ZC''))) world0) \<and>
   reqHistoricalData (ex_market (\<lambda>s. Returns (ex_bars [1, 1, 2])) ex_listed 25)
     (ContFuture (symbol (ex_instrument ''ZC'')) (exchange (ex_instrument ''ZC''))
        (currency (ex_instrument ''ZC''))) = Returns (ex_bars [1, 1, 2]) \<and>
   ex_bars [1, 1, 2] \<noteq> [] \<and>
   fetch_one (ex_config []) (ex_market (\<lambda>s. Returns (ex_bars [1, 1, 2])) ex_listed 25)
     (ex_instrument ''ZC'') world0
     = (None, print (WarningNotEnoughData (symbol (ex_instrument ''ZC''))) world0) \<and>
   reqHistoricalData (ex_market (\<lambda>s. Returns (ex_bars [1, 1, 2, 6])) ex_listed 25)
     (ContFuture (symbol (ex_instrument ''ZC'')) (exchange (ex_instrument ''ZC''))
        (currency (ex_instrument ''ZC''))) = Returns (ex_bars [1, 1, 2, 6]) \<and>
   ex_bars [1, 1, 2, 6] \<noteq> [] \<and>
   fst (fetch_one (ex_config []) (ex_market (\<lambda>s. Returns (ex_bars [1, 1, 2, 6])) ex_listed 25)
     (ex_instrument ''ZC'') world0) \<noteq> None \<and>
   snd (fetch_one (ex_config []) (ex_market (\<lambda>s. Returns (ex_bars [1, 1, 2, 6])) ex_listed 25)
     (ex_instrument ''ZC'') world0) = world0"
proof -
  let ?cfg = "ex_config []"
  let ?info = "ex_instrument ''ZC''"
  have len: "length (ex_frame [1, 1, 2]) \<le> max (vol_window ?cfg) (ma_window ?cfg - 1)"
    by (simp add: ex_config_def)
  have r1: "reqHistoricalData (ex_market (\<lambda>s. Raises) ex_listed 25)
     (ContFuture (symbol ?info) (exchange ?info) (currency ?info)) = Raises"
    and r2: "reqHistoricalData (ex_market (\<lambda>s. Returns []) ex_listed 25)
     (ContFuture (symbol ?info) (exchange ?info) (currency ?info)) = Returns []"
    and r3: "reqHistoricalData (ex_market (\<lambda>s. Returns (ex_bars [1, 1, 2])) ex_listed 25)
     (ContFuture (symbol ?info) (exchange ?info) (currency ?info)) = Returns (ex_bars [1, 1, 2])"
    and r4: "reqHistoricalData (ex_market (\<lambda>s. Returns (ex_bars [1, 1, 2, 6])) ex_listed 25)
     (ContFuture (symbol ?info) (exchange ?info) (currency ?info)) = Returns (ex_bars [1, 1, 2, 6])"
    by (simp_all add: ex_market_def)
  have ne: "ex_bars [1, 1, 2] \<noteq> []" "ex_bars [1, 1, 2, 6] \<noteq> []"
    by (simp_all add: ex_bars_def)
  have full: "compute_indicators ?cfg (ex_frame [1, 1, 2, 6]) \<noteq> []"
    by (simp add: ex_frame_eval)
  note t1 = indicators_never_fail [of "ex_frame [1, 1, 2]" ?cfg "\<lambda>d. ex_day 0"
      "ex_market (\<lambda>s. Raises) ex_listed 25" ?info world0 "[]"]
  note t2 = indicators_never_fail [of "ex_frame [1, 1, 2, 6]" ?cfg "\<lambda>d. ex_day 0"
      "ex_market (\<lambda>s. Returns []) ex_listed 25" ?info world0 "[]"]
  note t3 = indicators_never_fail [of "ex_frame [1, 1, 2]" ?cfg "\<lambda>d. ex_day 0"
      "ex_market (\<lambda>s. Returns (ex_bars [1, 1, 2])) ex_listed 25" ?info world0 "ex_bars [1, 1, 2]"]
  note t4 = indicators_never_fail [of "ex_frame [1, 1, 2, 6]" ?cfg "\<lambda>d. ex_day 0"
      "ex_market (\<lambda>s. Returns (ex_bars [1, 1, 2, 6])) ex_listed 25" ?info world0
      "ex_bars [1, 1, 2, 6]"]
  from t1 len have short: "compute_indicators ?cfg (ex_frame [1, 1, 2]) = []" by blast
  then have short': "compute_indicators ?cfg (map (attach_symbol (symbol ?info)) (ex_bars [1, 1, 2])) = []"
    by (simp add: ex_frame_def)
  from full have full': "compute_indicators ?cfg (map (attach_symbol (symbol ?info))
      (ex_bars [1, 1, 2, 6])) \<noteq> []"
    by (simp add: ex_frame_def)
  from t1 r1 have a: "fetch_one ?cfg (ex_market (\<lambda>s. Raises) ex_listed 25) ?info world0
     = (None, print (ErrorFetchFailed (symbol ?info)) world0)" by blast
  from t2 r2 have b: "fetch_one ?cfg (ex_market (\<lambda>s. Returns []) ex_listed 25) ?info world0
     = (None, print (WarningNoBars (symbol ?info)) world0)" by blast
  from t3 r3 ne short' have c: "fetch_one ?cfg
     (ex_market (\<lambda>s. Returns (ex_bars [1, 1, 2])) ex_listed 25) ?info world0
     = (None, print (WarningNotEnoughData (symbol ?info)) world0)" by blast
  from t4 r4 ne full' have d: "fst (fetch_one ?cfg
     (ex_market (\<lambda>s. Returns (ex_bars [1, 1, 2, 6])) ex_listed 25) ?info world0) \<noteq> None \<and>
     snd (fetch_one ?cfg
     (ex_market (\<lambda>s. Returns (ex_bars [1, 1, 2, 6])) ex_listed 25) ?info world0) = world0"
    by blast
  from t2 have e: "compute_indicators ?cfg (map (date_update (\<lambda>d. ex_day 0)) (ex_frame [1, 1, 2, 6]))
     = map (date_update (\<lambda>d. ex_day 0)) (compute_indicators ?cfg (ex_frame [1, 1, 2, 6]))"
    by blast
  from len short e full r1 a r2 b r3 ne c r4 d show ?thesis by blast
qed

subsection \<open>Failures of one instrument\<close>

lemma find_symbol:
  "distinct (map symbol us) \<Longrightarrow> info \<in> set us
     \<Longrightarrow> find (\<lambda>x. symbol x = symbol info) us = Some info"
  by (induction us) (auto simp: image_iff)

lemma place_one_success:
  assumes dist: "distinct (map symbol (universe cfg))" and mem: "info \<in> set (universe cfg)"
    and snap: "snapshot cfg ib info = Some e"
    and ok: "place_one cfg ib (symbol info, e) w = (Inr u, w')"
  shows "placed w' = placed w @ order_for cfg ib info"
proof -
  from get_front_month_contract_uniform [of ib info] obtain r ls
    where g: "\<And>w. get_front_month_contract ib info w = (r, w\<lparr>printed := printed w @ ls\<rparr>)"
    by blast
  from g [of world0] have r: "front_month ib info = r" by (simp add: front_month_def)
  note f = find_symbol [OF dist mem]
  show ?thesis
  proof (cases r)
    case (Inl err)
    with ok f g show ?thesis by (simp add: place_one_def)
  next
    case (Inr c)
    show ?thesis
    proof (cases c)
      case None
      with Inr ok f g r snap show ?thesis
        by (auto simp: place_one_def order_for_def)
    next
      case (Some front)
      with Inr ok f g r snap show ?thesis
        by (auto simp: place_one_def order_for_def Let_def split: reply.splits)
    qed
  qed
qed

lemma place_all_success:
  assumes dist: "distinct (map symbol (universe cfg))"
  shows "set infos \<subseteq> set (universe cfg) \<Longrightarrow> \<forall>info\<in>set infos. snapshot cfg ib info \<noteq> None
    \<Longrightarrow> place_all cfg ib (map (\<lambda>info. (symbol info, the (snapshot cfg ib info))) infos) w = (Inr u, w')
    \<Longrightarrow> placed w' = placed w @ concat (map (order_for cfg ib) infos)"
proof (induction infos arbitrary: w)
  case Nil
  then show ?case by simp
next
  case (Cons info rest)
  from Cons.prems(2) obtain e where e: "snapshot cfg ib info = Some e" by auto
  obtain r1 w1 where one: "place_one cfg ib (symbol info, e) w = (r1, w1)"
    by (cases "place_one cfg ib (symbol info, e) w")
  with Cons.prems(3) e obtain u1 where r1: "r1 = Inr u1"
    by (cases r1) auto
  from Cons.prems(1) have mem: "info \<in> set (universe cfg)" by simp
  from place_one_success [OF dist mem e one [unfolded r1]]
  have p1: "placed w1 = placed w @ order_for cfg ib info" .
  from Cons.prems(3) e one r1
  have "place_all cfg ib (map (\<lambda>info. (symbol info, the (snapshot cfg ib info))) rest) w1 = (Inr u, w')"
    by simp
  with Cons.IH [of w1] Cons.prems(1,2)
  have "placed w' = placed w1 @ concat (map (order_for cfg ib) rest)" by simp
  with p1 show ?case by simp
qed

lemma order_for_no_snapshot:
  "concat (map (order_for cfg ib) (filter (\<lambda>info. snapshot cfg ib info \<noteq> None) us))
     = concat (map (order_for cfg ib) us)"
  by (induction us) (auto simp: order_for_def)

text \<open>
  Isolation, for the failures that the script handles: when the run returns with both
  gates open, the orders placed are those of the instruments of the universe, each taken
  by itself. An instrument whose fetch failed, whose history is too short or that has no
  contract listed gives no order and leaves the orders of the others as they are.
\<close>

lemma handled_failures_isolated:
  assumes run: "run_mlm_strategy cfg ib paper w0 = (Inr res, w)"
    and dist: "distinct (map symbol (universe cfg))"
    and gate: "day (today ib) = 25"
      "float_gt (np_mean (map (\<lambda>(symb, data). latest_vol data)
          (fst (fetch_all cfg ib (universe cfg) [] w0)))) (vol_threshold cfg)"
  shows "placed w = placed w0 @ concat (map (order_for cfg ib) (universe cfg))"
proof -
  obtain c w1 where conn: "connect_ibkr ib paper w0 = (c, w1)" by (cases "connect_ibkr ib paper w0")
  with run obtain u where c: "c = Inr u"
    by (cases c) (auto simp: run_mlm_strategy_def)
  from conn c have w1: "w1 = print (InfoConnected paper (if paper then 7497 else 7496)) w0"
    using connect_ibkr_ok by blast
  obtain m w2 where f: "fetch_all cfg ib (universe cfg) [] w1 = (m, w2)"
    by (cases "fetch_all cfg ib (universe cfg) [] w1")
  have m0: "fst (fetch_all cfg ib (universe cfg) [] w0) = m"
    using fetch_all_fst_world [of cfg ib "universe cfg" "[]" w0 w1] f by simp
  let ?c = "filter (\<lambda>info. snapshot cfg ib info \<noteq> None) (universe cfg)"
  from fetch_all_eq [of cfg ib "universe cfg" "[]" w1] obtain ls where
    fe: "fetch_all cfg ib (universe cfg) [] w1 =
      (foldl (\<lambda>m info. case snapshot cfg ib info of None \<Rightarrow> m
                        | Some e \<Rightarrow> AList.update (symbol info) e m) [] (universe cfg),
       w1\<lparr>printed := printed w1 @ ls\<rparr>)" by blast
  have "fst ` set ([] :: symbol_data_map) \<inter> symbol ` set (universe cfg) = {}" by simp
  note basket_distinct [OF dist this, of cfg ib]
  with fe f have m: "m = map (\<lambda>info. (symbol info, the (snapshot cfg ib info))) ?c"
    and w2: "placed w2 = placed w0" by (auto simp: w1)
  from gate m0 have ne: "m \<noteq> []" by (auto simp: float_gt_def)
  let ?w4 = "print InfoPlacingOrders
         (print (InfoVolatilityCheck True (vol_threshold cfg))
           (print (InfoAverageVol (np_mean (map (\<lambda>(symb, data). latest_vol data) m))) w2))"
  obtain r w5 where p: "place_all cfg ib m ?w4 = (r, w5)" by (cases "place_all cfg ib m ?w4")
  from run_gate_open [OF conn [unfolded c] f ne gate(1) gate(2) [unfolded m0]] run p
  obtain u' where r: "r = Inr u'" and w: "w = disconnect (sleep 5 w5)"
    by (cases r) auto
  from p r m have p': "place_all cfg ib
      (map (\<lambda>info. (symbol info, the (snapshot cfg ib info))) ?c) ?w4 = (Inr u', w5)"
    by simp
  have "placed w5 = placed ?w4 @ concat (map (order_for cfg ib) ?c)"
    by (rule place_all_success [OF dist _ _ p']) auto
  with w w2 show ?thesis by (simp add: order_for_no_snapshot del: not_None_eq)
qed

subsection \<open>Runs under the script's own setting\<close>

text \<open>The windows of 20 and 200 days, the threshold of 0.015 and the universe of 25
  instruments, on a history of 200 bars.\<close>

lemma ex_swing_nz [simp]: "ex_swing i \<noteq> 0"
  by (simp add: ex_swing_def)

lemma ex_history_simps [simp]:
  "length (ex_history n) = n"
  "map close (map (attach_symbol s) (ex_history n)) = map ex_swing [0..<n]"
  "ex_history 200 \<noteq> []"
  by (simp_all add: ex_history_def ex_bar_def comp_def)

lemma ex_history_nz: "\<forall>r\<in>set (map (attach_symbol s) (ex_history n)). close r \<noteq> 0"
  by (auto simp: ex_history_def ex_bar_def)

lemma ex_swing_window:
  "take 20 (drop 180 (pct_change (map ex_swing [0..<200])))
     = map (\<lambda>i. Some (ex_swing i / ex_swing (i - 1) - 1)) [180..<200]"
proof -
  have "take 20 (drop 180 (pct_change (map ex_swing [0..<200])))
     = map (\<lambda>i. if i = 0 \<or> map ex_swing [0..<200] ! (i - 1) = 0 then None
                 else Some (map ex_swing [0..<200] ! i / map ex_swing [0..<200] ! (i - 1) - 1))
         [180..<200]"
    unfolding pct_change_def by (simp add: drop_map take_map del: upt_rec_numeral)
  also have "\<dots> = map (\<lambda>i. Some (ex_swing i / ex_swing (i - 1) - 1)) [180..<200]"
  proof (rule map_cong [OF refl])
    fix i assume "i \<in> set [180..<200]"
    then have i: "i < 200" "i - 1 < 200" "i \<noteq> 0" by auto
    have nth: "map ex_swing [0..<200] ! j = ex_swing j" if "j < 200" for j
      using that by (simp del: upt_rec_numeral)
    show "(if i = 0 \<or> map ex_swing [0..<200] ! (i - 1) = 0 then None
           else Some (map ex_swing [0..<200] ! i / map ex_swing [0..<200] ! (i - 1) - 1))
        = Some (ex_swing i / ex_swing (i - 1) - 1)"
      unfolding nth [OF i(1)] nth [OF i(2)] using i(3) by simp
  qed
  finally show ?thesis .
qed

lemma ex_swing_vol:
  "rolling 20 std (pct_change (map ex_swing [0..<200])) ! 199 = Some (sqrt (45 / 76))"
  "(0.015 :: real) < sqrt (45 / 76)"
proof -
  have w: "map the (take 20 (drop 180 (pct_change (map ex_swing [0..<200]))))
     = [- 1 / 2, 1, - 1 / 2, 1, - 1 / 2, 1, - 1 / 2, 1, - 1 / 2, 1,
        - 1 / 2, 1, - 1 / 2, 1, - 1 / 2, 1, - 1 / 2, 1, - 1 / 2, 1]"
    unfolding ex_swing_window by (simp add: ex_swing_def)
  have a: "list_all (\<lambda>v. v \<noteq> None) (take 20 (drop 180 (pct_change (map ex_swing [0..<200]))))"
    unfolding ex_swing_window by (simp add: list_all_iff del: upt_rec_numeral)
  have s: "std [- 1 / 2, 1, - 1 / 2, 1, - 1 / 2, 1, - 1 / 2, 1, - 1 / 2, 1,
        - 1 / 2, 1, - 1 / 2, 1, - 1 / 2, 1, - 1 / 2, 1, - 1 / 2, 1] = Some (sqrt (45 / 76))"
    by (simp add: std_def Let_def power2_eq_square)
  show "(0.015 :: real) < sqrt (45 / 76)"
    by (rule real_less_rsqrt) (simp add: power2_eq_square)
  have "199 < length (pct_change (map ex_swing [0..<200]))" by simp
  from nth_rolling [OF this, of 20 std]
  have "rolling 20 std (pct_change (map ex_swing [0..<200])) ! 199 =
     (if list_all (\<lambda>v. v \<noteq> None) (take 20 (drop 180 (pct_change (map ex_swing [0..<200]))))
      then std (map the (take 20 (drop 180 (pct_change (map ex_swing [0..<200])))))
      else None)"
    by (simp del: upt_rec_numeral take_all drop_map take_map not_None_eq)
  with a show "rolling 20 std (pct_change (map ex_swing [0..<200])) ! 199 = Some (sqrt (45 / 76))"
    by (simp only: w s if_True)
qed

lemma sum_ex_swing: "sum_list (map ex_swing [0..<2 * k]) = 3 * real k"
  by (induction k) (simp_all add: ex_swing_def)

lemma ex_swing_signal:
  "signal_of (close (map (attach_symbol s) (ex_history 200) ! 199))
     (rolling 200 mean (map (\<lambda>r. Some (close r)) (map (attach_symbol s) (ex_history 200))) ! 199) = 1"
proof -
  have c: "close (map (attach_symbol s) (ex_history 200) ! 199) = 2"
    by (simp add: ex_history_def ex_bar_def ex_swing_def del: upt_rec_numeral)
  have "sum_list (map ex_swing [0..<2 * 100]) = 300" by (simp only: sum_ex_swing)
  then have m: "mean (map ex_swing [0..<200]) = Some (3 / 2)"
    by (simp add: mean_def del: upt_rec_numeral)
  have "rolling 200 mean (map (\<lambda>r. Some (close r)) (map (attach_symbol s) (ex_history 200))) ! 199
      = mean (map close (map (attach_symbol s) (ex_history 200)))"
  proof -
    have "199 < length (map (attach_symbol s) (ex_history 200))" by simp
    from rolling_mean_closes [OF this, of 200] show ?thesis
      by (simp del: map_map upt_rec_numeral)
  qed
  with m c show ?thesis by (simp add: signal_of_def del: map_map upt_rec_numeral)
qed


lemma mlm_windows [simp]:
  "vol_window mlm_config = 20" "ma_window mlm_config = 200" "contract_size mlm_config = 1"
  "vol_threshold mlm_config = 0.015" "universe mlm_config = mlm_universe"
  by (simp_all add: mlm_config_def VOL_WINDOW_def MA_WINDOW_def CONTRACT_SIZE_def
      VOL_THRESHOLD_def)

text \<open>With this history an instrument gets an entry: its signal is 1 and its volatility
  is above the threshold.\<close>

lemma ex_long_indicators:
  "compute_indicators mlm_config (map (attach_symbol s) (ex_history 200)) \<noteq> []"
  "rolling_std_20 (last (compute_indicators mlm_config (map (attach_symbol s) (ex_history 200))))
     = Some (sqrt (45 / 76))"
  "signal (last (compute_indicators mlm_config (map (attach_symbol s) (ex_history 200)))) = 1"
proof -
  let ?frame = "map (attach_symbol s) (ex_history 200)"
  have vw: "2 \<le> vol_window mlm_config" and mw: "1 \<le> ma_window mlm_config"
    and long: "max (vol_window mlm_config) (ma_window mlm_config - 1) < length ?frame"
    by simp_all
  note l = compute_indicators_last [OF ex_history_nz vw mw long]
  show "compute_indicators mlm_config ?frame \<noteq> []" by (rule l(1))
  show "rolling_std_20 (last (compute_indicators mlm_config ?frame)) = Some (sqrt (45 / 76))"
    unfolding l(2) using ex_swing_vol(1) by (simp del: upt_rec_numeral map_map)
  show "signal (last (compute_indicators mlm_config ?frame)) = 1"
    unfolding l(3) using ex_swing_signal [of s] by (simp del: upt_rec_numeral map_map)
qed

lemma ex_long_snapshot:
  "\<exists>e. snapshot mlm_config (ex_market (\<lambda>s. Returns (ex_history 200)) listed d) info = Some e \<and>
       latest_signal e = 1 \<and> latest_vol e = Some (sqrt (45 / 76))"
proof -
  let ?ib = "ex_market (\<lambda>s. Returns (ex_history 200)) listed d"
  have r: "reqHistoricalData ?ib (ContFuture (symbol info) (exchange info) (currency info))
      = Returns (ex_history 200)" by (simp add: ex_market_def)
  from fetch_one_cases(4) [OF r ex_history_simps(3) refl ex_long_indicators(1), of world0]
  show ?thesis by (simp add: snapshot_def ex_long_indicators)
qed

text \<open>Every instrument of the script's universe gets its entry, and the average
  volatility is the one of the history.\<close>

lemma ex_long_basket:
  "fst (fetch_all mlm_config (ex_market (\<lambda>s. Returns (ex_history 200)) listed d) mlm_universe [] w)
     = map (\<lambda>info. (symbol info,
            the (snapshot mlm_config (ex_market (\<lambda>s. Returns (ex_history 200)) listed d) info)))
         mlm_universe"
proof -
  let ?ib = "ex_market (\<lambda>s. Returns (ex_history 200)) listed d"
  from fetch_all_eq [of mlm_config ?ib mlm_universe "[]" w] obtain ls where
    "fetch_all mlm_config ?ib mlm_universe [] w =
      (foldl (\<lambda>m info. case snapshot mlm_config ?ib info of None \<Rightarrow> m
                        | Some e \<Rightarrow> AList.update (symbol info) e m) [] mlm_universe,
       w\<lparr>printed := printed w @ ls\<rparr>)" by blast
  moreover have "distinct (map symbol mlm_universe)" using mlm_universe_distinct by simp
  moreover have "fst ` set ([] :: symbol_data_map) \<inter> symbol ` set mlm_universe = {}" by simp
  ultimately have "fst (fetch_all mlm_config ?ib mlm_universe [] w)
     = map (\<lambda>info. (symbol info, the (snapshot mlm_config ?ib info)))
         (filter (\<lambda>info. snapshot mlm_config ?ib info \<noteq> None) mlm_universe)"
    using basket_distinct [of mlm_universe "[]" mlm_config ?ib] by simp
  moreover have "filter (\<lambda>info. snapshot mlm_config ?ib info \<noteq> None) mlm_universe = mlm_universe"
    using ex_long_snapshot [of listed d] by (auto simp: filter_id_conv)
  ultimately show ?thesis by simp
qed

lemma ex_long_avg:
  "np_mean (map (\<lambda>(symb, data). latest_vol data)
     (fst (fetch_all mlm_config (ex_market (\<lambda>s. Returns (ex_history 200)) listed d)
        mlm_universe [] w))) = Some (sqrt (45 / 76))"
proof -
  let ?ib = "ex_market (\<lambda>s. Returns (ex_history 200)) listed d"
  have v: "latest_vol (the (snapshot mlm_config ?ib info)) = Some (sqrt (45 / 76))" for info
    using ex_long_snapshot [of listed d info] by auto
  have m: "map (\<lambda>(symb, data). latest_vol data) (fst (fetch_all mlm_config ?ib mlm_universe [] w))
      = map Some (map (\<lambda>info. sqrt (45 / 76)) mlm_universe)"
    unfolding ex_long_basket by (simp add: v comp_def)
  have ne: "map (\<lambda>info. sqrt (45 / 76) :: real) mlm_universe \<noteq> []"
    by (simp add: mlm_universe_def)
  have sum: "sum_list (map (\<lambda>info. sqrt (45 / 76) :: real) mlm_universe)
       / real (length (map (\<lambda>info. sqrt (45 / 76) :: real) mlm_universe)) = sqrt (45 / 76)"
    by (simp add: sum_list_triv mlm_universe_def)
  from np_mean_Some [OF ne] have "np_mean (map Some (map (\<lambda>info. sqrt (45 / 76)) mlm_universe))
      = Some (sqrt (45 / 76))"
    unfolding sum .
  then show ?thesis unfolding m .
qed

text \<open>
  C1, as the specification states it, asks that a cycle whose gates are not both open
  still produces a complete end-of-cycle summary. The script builds no summary on any
  path: on the 24th, with an entry for each of the 25 instruments, the run places no
  order and returns \<^verbatim>\<open>None\<close>.
\<close>

theorem no_summary_counterexample:
  "day (today (ex_market (\<lambda>s. Returns (ex_history 200)) ex_listed_all 24)) \<noteq> 25 \<and>
   length (fst (fetch_all mlm_config (ex_market (\<lambda>s. Returns (ex_history 200)) ex_listed_all 24)
      (universe mlm_config) [] world0)) = 25 \<and>
   fst (run_mlm_strategy mlm_config (ex_market (\<lambda>s. Returns (ex_history 200)) ex_listed_all 24)
      True world0) = Inr None \<and>
   placed (snd (run_mlm_strategy mlm_config
      (ex_market (\<lambda>s. Returns (ex_history 200)) ex_listed_all 24) True world0)) = []"
proof -
  let ?ib = "ex_market (\<lambda>s. Returns (ex_history 200)) ex_listed_all 24"
  let ?w1 = "print (InfoConnected True 7497) world0"
  have d: "day (today ?ib) \<noteq> 25" by (simp add: ex_gate)
  obtain m w2 where f: "fetch_all mlm_config ?ib (universe mlm_config) [] ?w1 = (m, w2)"
    by (cases "fetch_all mlm_config ?ib (universe mlm_config) [] ?w1")
  from f ex_long_basket [of ex_listed_all 24 ?w1] have len: "length m = 25"
    by (simp add: mlm_universe_def)
  then have ne: "m \<noteq> []" by auto
  from fetch_all_eq [of mlm_config ?ib "universe mlm_config" "[]" ?w1] f
  have w2: "placed w2 = []" by auto
  from d have g: "\<not> (day (today ?ib) = 25 \<and>
      float_gt (np_mean (map (\<lambda>(symb, data). latest_vol data) m)) (vol_threshold mlm_config))"
    by simp
  from run_gate_closed [OF ex_connect f ne g] w2
  have "fst (run_mlm_strategy mlm_config ?ib True world0) = Inr None"
    "placed (snd (run_mlm_strategy mlm_config ?ib True world0)) = []"
    by simp_all
  moreover have "length (fst (fetch_all mlm_config ?ib (universe mlm_config) [] world0)) = 25"
    using ex_long_basket [of ex_listed_all 24 world0] by (simp add: mlm_universe_def)
  ultimately show ?thesis using d by blast
qed

text \<open>The second loop when the contract request raises for corn, the first item: it ends
  at once, with the world as it was.\<close>

lemma ex_corn_place:
  "place_all mlm_config (ex_market hist ex_listed_corn_raises d) ((''ZC'', e) # rest) w
     = (Inl BrokerException, w)"
  by (simp add: place_one_def mlm_universe_def get_front_month_contract_def ex_market_def
      ex_listed_corn_raises_def)

text \<open>
  C5 asks that the failure of one instrument, in the fetch, in the indicators or in the
  contract resolution, excludes that instrument only, and that no error of one
  instrument ends the cycle. The script catches the exception of the history request,
  but not the one of the contract request (nor of the order): on the 25th, with a
  volatile basket, a contract request that raises for corn ends the run with the
  exception. No order is placed, not even for wheat, whose own replies give a buy order,
  and the session is not disconnected.
\<close>

theorem contract_request_exception_aborts:
  "fst (run_mlm_strategy mlm_config
     (ex_market (\<lambda>s. Returns (ex_history 200)) ex_listed_corn_raises 25) True world0)
     = Inl BrokerException \<and>
   placed (snd (run_mlm_strategy mlm_config
     (ex_market (\<lambda>s. Returns (ex_history 200)) ex_listed_corn_raises 25) True world0)) = [] \<and>
   disconnects (snd (run_mlm_strategy mlm_config
     (ex_market (\<lambda>s. Returns (ex_history 200)) ex_listed_corn_raises 25) True world0)) = 0 \<and>
   ex_instrument ''ZW'' \<in> set (universe mlm_config) \<and>
   order_for mlm_config (ex_market (\<lambda>s. Returns (ex_history 200)) ex_listed_corn_raises 25)
     (ex_instrument ''ZW'')
     = [(\<lparr>conId = 7, con_symbol = ''ZW'', lastTradeDateOrContractMonth = ''202403''\<rparr>,
         \<lparr>action = ''BUY'', totalQuantity = 1\<rparr>)]"
proof -
  let ?ib = "ex_market (\<lambda>s. Returns (ex_history 200)) ex_listed_corn_raises 25"
  let ?w1 = "print (InfoConnected True 7497) world0"
  obtain m w2 where f: "fetch_all mlm_config ?ib (universe mlm_config) [] ?w1 = (m, w2)"
    by (cases "fetch_all mlm_config ?ib (universe mlm_config) [] ?w1")
  from f ex_long_basket [of ex_listed_corn_raises 25 ?w1]
  obtain e rest where m: "m = (''ZC'', e) # rest"
    by (simp add: mlm_universe_def)
  then have ne: "m \<noteq> []" by simp
  from fetch_all_eq [of mlm_config ?ib "universe mlm_config" "[]" ?w1] f
  have w2: "placed w2 = []" "disconnects w2 = 0" by auto
  have g1: "day (today ?ib) = 25" by (simp add: ex_gate)
  from f ex_long_avg [of ex_listed_corn_raises 25 ?w1] ex_swing_vol(2)
  have g2: "float_gt (np_mean (map (\<lambda>(symb, data). latest_vol data) m)) (vol_threshold mlm_config)"
    by simp
  from run_gate_open [OF ex_connect f ne g1 g2] w2
  have run: "fst (run_mlm_strategy mlm_config ?ib True world0) = Inl BrokerException"
    "placed (snd (run_mlm_strategy mlm_config ?ib True world0)) = []"
    "disconnects (snd (run_mlm_strategy mlm_config ?ib True world0)) = 0"
    unfolding m ex_corn_place by simp_all
  from ex_long_snapshot [of ex_listed_corn_raises 25 "ex_instrument ''ZW''"]
  obtain e' where s: "snapshot mlm_config ?ib (ex_instrument ''ZW'') = Some e'"
    "latest_signal e' = 1" by blast
  have fm: "front_month ?ib (ex_instrument ''ZW'')
     = Inr (Some \<lparr>conId = 7, con_symbol = ''ZW'', lastTradeDateOrContractMonth = ''202403''\<rparr>)"
    by (simp add: front_month_def get_front_month_contract_def ex_market_def
        ex_listed_corn_raises_def ex_listed_all_def)
  from s fm have o: "order_for mlm_config ?ib (ex_instrument ''ZW'')
     = [(\<lparr>conId = 7, con_symbol = ''ZW'', lastTradeDateOrContractMonth = ''202403''\<rparr>,
         \<lparr>action = ''BUY'', totalQuantity = 1\<rparr>)]"
    by (simp add: order_for_def)
  have mem: "ex_instrument ''ZW'' \<in> set (universe mlm_config)"
    by (simp add: mlm_universe_def ex_instrument_def)
  from run o mem show ?thesis by blast
qed

text \<open>Attaching the symbol and changing the dates can be done in either order.\<close>

lemma attach_symbol_date:
  "map (attach_symbol s) (map (date_update f) bars)
     = map (date_update f) (map (attach_symbol s) bars)"
  by (simp add: attach_symbol_def bar.defs cont_row.defs)

text \<open>
  C7, as the specification states it, asks for a hard failure exactly when the series is
  empty or its dates repeat or are out of order. The computation checks no date: 200
  bars of one and the same day give a derived row, and the instrument gets its entry.
\<close>

theorem duplicate_dates_accepted_counterexample:
  "\<not> distinct (map date ex_same_day_history) \<and>
   length ex_same_day_history = 200 \<and>
   compute_indicators mlm_config (map (attach_symbol ''ZC'') ex_same_day_history) \<noteq> [] \<and>
   snapshot mlm_config (ex_market (\<lambda>s. Returns ex_same_day_history) ex_listed_all 25) ex_info
     \<noteq> None"
proof -
  let ?ib = "ex_market (\<lambda>s. Returns ex_same_day_history) ex_listed_all 25"
  have "map date ex_same_day_history = replicate 200 (ex_day 0)"
    by (simp add: ex_same_day_history_def comp_def map_replicate_const del: upt_rec_numeral)
  moreover have "\<not> distinct (replicate 200 (ex_day 0))"
  proof
    assume "distinct (replicate 200 (ex_day 0))"
    from distinct_card [OF this] show False by simp
  qed
  ultimately have a: "\<not> distinct (map date ex_same_day_history)" by simp
  have b: "length ex_same_day_history = 200" by (simp add: ex_same_day_history_def)
  have c: "compute_indicators mlm_config (map (attach_symbol s) ex_same_day_history) \<noteq> []" for s
    unfolding ex_same_day_history_def attach_symbol_date compute_indicators_dates
    using ex_long_indicators(1) [of s] by simp
  have r: "reqHistoricalData ?ib (ContFuture (symbol ex_info) (exchange ex_info) (currency ex_info))
      = Returns ex_same_day_history" by (simp add: ex_market_def)
  from b have ne: "ex_same_day_history \<noteq> []" by auto
  from fetch_one_cases(4) [OF r ne refl c, of world0]
  have d: "snapshot mlm_config ?ib ex_info \<noteq> None" by (simp add: snapshot_def)
  have "symbol ex_info = ''ZC''" by (simp add: ex_info_def)
  with a b c [of "''ZC''"] d show ?thesis by blast
qed

end
